theory Spec2Isabelle
  imports Complex_Main
begin

section \<open>JavaScript values\<close>

text \<open>
  The dashboard front end (\<^verbatim>\<open>static/app.js\<close>) works on JavaScript strings, on JSON
  values received from the reporting API and on a handful of DOM elements. A string is
  the list of its UTF-16 code units; the Arabic literals of the source are written out as
  code units.
\<close>

type_synonym jsstring = "nat list"

definition lit :: "string \<Rightarrow> jsstring" where
  "lit s = map of_char s"

text \<open>
  A Number is a binary64 value: not-a-number, an infinity, or a finite value, which is a
  rational. The two zeros are not told apart: no operation of the program distinguishes them.
\<close>

datatype jsnum = NaN | PInf | NInf | Fin rat

text \<open>
  A value is a JSON scalar, \<^verbatim>\<open>undefined\<close>, or an object (a function is one) with the default
  \<^verbatim>\<open>valueOf\<close>, given by the string its \<^verbatim>\<open>toString\<close> returns: the members that a row
  inherits from \<^verbatim>\<open>Object.prototype\<close> are of this kind.
\<close>

datatype jsval = JUndefined | JNull | JBool bool | JNum jsnum | JStr jsstring | JObj jsstring

text \<open>
  The builtins of the host whose results lie outside this development are parameters of
  the model: the parse of a string as a number, the shortest round-trip printing of a
  number that is not a safe integer, binary64 division and multiplication (with their
  rounding), Unicode lower-casing, URI component encoding (which throws
  \<^verbatim>\<open>URIError\<close> on a lone surrogate: \<open>None\<close>), and the properties of
  \<^verbatim>\<open>Object.prototype\<close>, which every row inherits (\<open>None\<close> for a name it does not have).
\<close>

record js_runtime =
  rt_StringToNumber :: "jsstring \<Rightarrow> jsnum"
  rt_NumberToString :: "jsnum \<Rightarrow> jsstring"
  rt_divide :: "jsnum \<Rightarrow> jsnum \<Rightarrow> jsnum"
  rt_multiply :: "jsnum \<Rightarrow> jsnum \<Rightarrow> jsnum"
  rt_toLowerCase :: "jsstring \<Rightarrow> jsstring"
  rt_encodeURIComponent :: "jsstring \<Rightarrow> jsstring option"
  rt_ObjectPrototype :: "jsstring \<Rightarrow> jsval option"

fun digits :: "nat \<Rightarrow> jsstring" where
  "digits n = (if n < 10 then [48 + n] else digits (n div 10) @ [48 + n mod 10])"

declare digits.simps [simp del]

definition int_string :: "int \<Rightarrow> jsstring" where
  "int_string i = (if i < 0 then lit ''-'' @ digits (nat (- i)) else digits (nat i))"

definition is_safe_int :: "rat \<Rightarrow> bool" where
  "is_safe_int q \<longleftrightarrow> q = of_int \<lfloor>q\<rfloor> \<and> \<bar>q\<bar> < 2 ^ 53"

text \<open>
  \<^verbatim>\<open>Number::toString\<close>: an integer of magnitude below \<open>2^53\<close> prints as its decimal
  expansion (its neighbours are the integers next to it, so no shorter digit string reads
  back as the same number); the other finite values are printed by the host.
\<close>

definition num_to_string :: "js_runtime \<Rightarrow> jsnum \<Rightarrow> jsstring" where
  "num_to_string rt x =
     (case x of
        NaN \<Rightarrow> lit ''NaN''
      | PInf \<Rightarrow> lit ''Infinity''
      | NInf \<Rightarrow> lit ''-Infinity''
      | Fin q \<Rightarrow> if is_safe_int q then int_string \<lfloor>q\<rfloor> else rt_NumberToString rt x)"

definition ToString :: "js_runtime \<Rightarrow> jsval \<Rightarrow> jsstring" where
  "ToString rt v =
     (case v of
        JUndefined \<Rightarrow> lit ''undefined''
      | JNull \<Rightarrow> lit ''null''
      | JBool b \<Rightarrow> (if b then lit ''true'' else lit ''false'')
      | JNum x \<Rightarrow> num_to_string rt x
      | JStr s \<Rightarrow> s
      | JObj s \<Rightarrow> s)"

definition ToNumber :: "js_runtime \<Rightarrow> jsval \<Rightarrow> jsnum" where
  "ToNumber rt v =
     (case v of
        JUndefined \<Rightarrow> NaN
      | JNull \<Rightarrow> Fin 0
      | JBool b \<Rightarrow> (if b then Fin 1 else Fin 0)
      | JNum x \<Rightarrow> x
      | JStr s \<Rightarrow> rt_StringToNumber rt s
      | JObj s \<Rightarrow> rt_StringToNumber rt s)"

definition truthy :: "jsval \<Rightarrow> bool" where
  "truthy v =
     (case v of
        JUndefined \<Rightarrow> False
      | JNull \<Rightarrow> False
      | JBool b \<Rightarrow> b
      | JNum x \<Rightarrow> x \<noteq> NaN \<and> x \<noteq> Fin 0
      | JStr s \<Rightarrow> s \<noteq> []
      | JObj s \<Rightarrow> True)"

text \<open>\<^verbatim>\<open>a || b\<close> and \<^verbatim>\<open>a ?? b\<close>.\<close>

definition js_or :: "jsval \<Rightarrow> jsval \<Rightarrow> jsval" where
  "js_or a b = (if truthy a then a else b)"

definition js_nullish :: "jsval \<Rightarrow> jsval \<Rightarrow> jsval" where
  "js_nullish a b = (if a = JUndefined \<or> a = JNull then b else a)"

text \<open>\<^verbatim>\<open>v > 0\<close> and \<^verbatim>\<open>v < 0\<close>: the operand is converted to a number; not-a-number compares false.\<close>

definition num_gt0 :: "jsnum \<Rightarrow> bool" where
  "num_gt0 x = (case x of Fin q \<Rightarrow> 0 < q | PInf \<Rightarrow> True | _ \<Rightarrow> False)"

definition num_lt0 :: "jsnum \<Rightarrow> bool" where
  "num_lt0 x = (case x of Fin q \<Rightarrow> q < 0 | NInf \<Rightarrow> True | _ \<Rightarrow> False)"

definition js_gt0 :: "js_runtime \<Rightarrow> jsval \<Rightarrow> bool" where
  "js_gt0 rt v = num_gt0 (ToNumber rt v)"

definition js_lt0 :: "js_runtime \<Rightarrow> jsval \<Rightarrow> bool" where
  "js_lt0 rt v = num_lt0 (ToNumber rt v)"

text \<open>\<^verbatim>\<open>String.prototype.includes\<close>: the argument occurs as a contiguous run of code units.\<close>

fun starts_with :: "jsstring \<Rightarrow> jsstring \<Rightarrow> bool" where
  "starts_with xs [] = True"
| "starts_with [] (y # ys) = False"
| "starts_with (x # xs) (y # ys) = (x = y \<and> starts_with xs ys)"

fun str_includes :: "jsstring \<Rightarrow> jsstring \<Rightarrow> bool" where
  "str_includes [] q = (q = [])"
| "str_includes (x # xs) q = (starts_with (x # xs) q \<or> str_includes xs q)"

section \<open>Delta indicators of the summary cards\<close>

text \<open>
  A delta slot of a card: its text and its class list. \<^verbatim>\<open>classList.remove\<close> drops the
  tokens given, \<^verbatim>\<open>classList.add\<close> appends a token that is not there yet.
\<close>

record delta_el =
  el_text :: jsstring
  el_classes :: "jsstring list"

definition classList_remove :: "jsstring list \<Rightarrow> jsstring list \<Rightarrow> jsstring list" where
  "classList_remove toks cs = filter (\<lambda>c. c \<notin> set toks) cs"

definition classList_add :: "jsstring \<Rightarrow> jsstring list \<Rightarrow> jsstring list" where
  "classList_add tok cs = (if tok \<in> set cs then cs else cs @ [tok])"

definition delta_positive :: jsstring where "delta_positive = lit ''delta-positive''"
definition delta_negative :: jsstring where "delta_negative = lit ''delta-negative''"
definition delta_neutral :: jsstring where "delta_neutral = lit ''delta-neutral''"

text \<open>The message texts of \<^verbatim>\<open>updateDelta\<close> (lines 180, 183, 186 and 189 of the source).\<close>

definition msg_no_prior_run :: jsstring where
  \<comment> \<open>"no previous run for ", followed by the label\<close>
  "msg_no_prior_run =
     [1604, 1575, 32, 1610, 1608, 1580, 1583, 32, 1578, 1588, 1594, 1610, 1604, 32,
      1587, 1575, 1576, 1602, 32, 1604, 1600, 32]"

definition msg_compared :: jsstring where
  \<comment> \<open>" compared with the previous run (", after the signed delta\<close>
  "msg_compared =
     [32, 1605, 1602, 1575, 1585, 1606, 1577, 1611, 32, 1576, 1575, 1604, 1578, 1588,
      1594, 1610, 1604, 32, 1575, 1604, 1587, 1575, 1576, 1602, 32, 40]"

definition msg_no_change :: jsstring where
  \<comment> \<open>"no change compared with the previous run ("\<close>
  "msg_no_change =
     [1604, 1575, 32, 1578, 1594, 1610, 1610, 1585, 32, 1605, 1602, 1575, 1585, 1606,
      1577, 1611, 32, 1576, 1575, 1604, 1578, 1588, 1594, 1610, 1604, 32, 1575, 1604,
      1587, 1575, 1576, 1602, 32, 40]"

text \<open>
  \<^verbatim>\<open>updateDelta(el, prevVal, deltaVal, label)\<close>, a closure of \<^verbatim>\<open>loadTotals\<close> over
  \<^verbatim>\<open>prevDate\<close>. An absent element (\<open>None\<close>) is left alone.
\<close>

definition updateDelta ::
  "js_runtime \<Rightarrow> jsval \<Rightarrow> delta_el option \<Rightarrow> jsval \<Rightarrow> jsval \<Rightarrow> jsstring \<Rightarrow> delta_el option" where
  "updateDelta rt prevDate el prevVal deltaVal label =
     (case el of
        None \<Rightarrow> None
      | Some e \<Rightarrow>
          let cs = classList_remove [delta_positive, delta_negative, delta_neutral] (el_classes e)
          in if prevVal = JNull \<or> deltaVal = JNull \<or> prevDate = JNull then
               Some \<lparr>el_text = msg_no_prior_run @ label,
                     el_classes = classList_add delta_neutral cs\<rparr>
             else if js_gt0 rt deltaVal then
               Some \<lparr>el_text = lit ''+'' @ ToString rt deltaVal @ msg_compared
                                 @ ToString rt prevDate @ lit '')'',
                     el_classes = classList_add delta_positive cs\<rparr>
             else if js_lt0 rt deltaVal then
               Some \<lparr>el_text = ToString rt deltaVal @ msg_compared
                                 @ ToString rt prevDate @ lit '')'',
                     el_classes = classList_add delta_negative cs\<rparr>
             else
               Some \<lparr>el_text = msg_no_change @ ToString rt prevDate @ lit '')'',
                     el_classes = classList_add delta_neutral cs\<rparr>)"

text \<open>
  The verdict of the delta classifier as the specification names it, and the reading of
  the specification in which "absent" covers a missing field as well as \<^verbatim>\<open>null\<close>.
\<close>

datatype verdict = NoPriorRun | Increased | Decreased | Unchanged

definition absent :: "jsval \<Rightarrow> bool" where
  "absent v \<longleftrightarrow> v = JUndefined \<or> v = JNull"

definition classify_spec :: "js_runtime \<Rightarrow> jsval \<Rightarrow> jsval \<Rightarrow> jsval \<Rightarrow> verdict" where
  "classify_spec rt previous delta prevDate =
     (if absent previous \<or> absent delta \<or> absent prevDate then NoPriorRun
      else if js_gt0 rt delta then Increased
      else if js_lt0 rt delta then Decreased
      else Unchanged)"

text \<open>
  What a delta slot shows for each verdict: the message of the verdict and its visual class,
  and none of the other two classes.
\<close>

definition has_only_class :: "jsstring \<Rightarrow> delta_el \<Rightarrow> bool" where
  "has_only_class c e \<longleftrightarrow>
     c \<in> set (el_classes e) \<and>
     (\<forall>d \<in> {delta_positive, delta_negative, delta_neutral}. d \<noteq> c \<longrightarrow> d \<notin> set (el_classes e))"

definition presents ::
  "js_runtime \<Rightarrow> verdict \<Rightarrow> jsval \<Rightarrow> jsstring \<Rightarrow> delta_el \<Rightarrow> bool" where
  "presents rt v delta label e =
     (case v of
        NoPriorRun \<Rightarrow> el_text e = msg_no_prior_run @ label \<and> has_only_class delta_neutral e
      | Increased \<Rightarrow>
          starts_with (el_text e) (lit ''+'' @ ToString rt delta @ msg_compared) \<and>
          has_only_class delta_positive e
      | Decreased \<Rightarrow>
          starts_with (el_text e) (ToString rt delta @ msg_compared) \<and>
          has_only_class delta_negative e
      | Unchanged \<Rightarrow> starts_with (el_text e) msg_no_change \<and> has_only_class delta_neutral e)"

section \<open>Filter state and scope\<close>

record filter_state =
  sector :: "jsstring option"
  municipality :: "jsstring option"

datatype 'a json_body = BadJson | JsonNull | JsonObject 'a

text \<open>
  The outcome of \<^verbatim>\<open>fetch\<close> followed by \<^verbatim>\<open>resp.json()\<close>: the promise rejects, or a
  response arrives whose \<^verbatim>\<open>ok\<close> flag is false or true, with its body (unparsable: the
  promise of \<^verbatim>\<open>json()\<close> rejects; the JSON value \<^verbatim>\<open>null\<close>; or an object).
\<close>

datatype ('e, 'a) fetch_result = Rejected | HttpError "'e json_body" | HttpOk "'a json_body"

datatype completion = Returned | Threw

record totals_json =
  visited :: jsval
  not_visited :: jsval
  total :: jsval
  prev_visited :: jsval
  prev_not_visited :: jsval
  prev_total :: jsval
  delta_visited :: jsval
  delta_not_visited :: jsval
  delta_total :: jsval
  prev_run_date :: jsval

record dataset =
  ds_label :: jsstring
  ds_data :: "jsval list option"
  ds_backgroundColor :: jsstring
  ds_stack :: jsstring

record chart =
  chart_labels :: "jsval list option"
  chart_datasets :: "dataset list"

record chart_json =
  cj_labels :: "jsval list option"
  cj_current_visited :: "jsval list option"
  cj_current_not :: "jsval list option"
  cj_prev_visited :: "jsval list option"
  cj_prev_not :: "jsval list option"
  cj_has_prev :: jsval

text \<open>
  The page: the \<^verbatim>\<open>data-sector\<close> attribute of the body (\<open>None\<close> when there is no body or
  no attribute), the global \<^verbatim>\<open>currentFilter\<close>, and the elements the loaders write to,
  each \<open>None\<close> when the page does not have it; \<^verbatim>\<open>visitsChart\<close> is the global holding the
  chart instance, \<open>canvas_shows\<close> what the canvas displays (nothing once the instance has
  been destroyed).
\<close>

record page =
  body_data_sector :: "jsstring option"
  currentFilter :: filter_state
  status :: "jsstring option"
  card_visited_value :: "jsstring option"
  card_not_visited_value :: "jsstring option"
  card_total_value :: "jsstring option"
  card_visited_delta :: "delta_el option"
  card_not_visited_delta :: "delta_el option"
  card_total_delta :: "delta_el option"
  canvas_present :: bool
  visitsChart :: "chart option"
  canvas_shows :: "chart option"
  muni_summary_table :: "jsstring option"
  muni_raw_table :: "jsstring option"

definition getBodySector :: "page \<Rightarrow> jsstring option" where
  "getBodySector st =
     (case body_data_sector st of
        None \<Rightarrow> None
      | Some s \<Rightarrow> if s \<noteq> [] then Some s else None)"

text \<open>Truthiness of a value that is \<^verbatim>\<open>null\<close> or a string.\<close>

definition str_truthy :: "jsstring option \<Rightarrow> bool" where
  "str_truthy x = (case x of None \<Rightarrow> False | Some s \<Rightarrow> s \<noteq> [])"

definition getSectorKey :: "page \<Rightarrow> jsstring option" where
  "getSectorKey st =
     (let bodySector = getBodySector st
      in if str_truthy bodySector then bodySector else sector (currentFilter st))"

definition getMunicipalityFilter :: "page \<Rightarrow> jsstring option" where
  "getMunicipalityFilter st =
     (let bodySector = getBodySector st
      in if str_truthy bodySector then None else municipality (currentFilter st))"

text \<open>
  The scope of the specification, \<^verbatim>\<open>resolveScope()\<close>, written from its words; a filter
  field is selected when it holds a non-empty string.
\<close>

datatype scope = AllData | BySector jsstring | ByMunicipality jsstring

definition selected :: "jsstring option \<Rightarrow> jsstring option" where
  "selected x = (case x of None \<Rightarrow> None | Some s \<Rightarrow> if s = [] then None else Some s)"

definition resolveScope :: "page \<Rightarrow> scope" where
  "resolveScope st =
     (case selected (body_data_sector st) of
        Some boundKey \<Rightarrow> BySector boundKey
      | None \<Rightarrow>
          (case selected (municipality (currentFilter st)) of
             Some name \<Rightarrow> ByMunicipality name
           | None \<Rightarrow>
               (case selected (sector (currentFilter st)) of
                  Some key \<Rightarrow> BySector key
                | None \<Rightarrow> AllData)))"

section \<open>Summary cards: \<^verbatim>\<open>loadTotals\<close>\<close>

definition msg_loading :: jsstring where
  \<comment> \<open>"loading data...", line 137\<close>
  "msg_loading =
     [1580, 1575, 1585, 1610, 32, 1578, 1581, 1605, 1610, 1604, 32, 1575, 1604, 1576,
      1610, 1575, 1606, 1575, 1578, 46, 46, 46]"

definition msg_no_data :: jsstring where
  \<comment> \<open>"no data available.", line 155\<close>
  "msg_no_data =
     [1604, 1575, 32, 1578, 1608, 1580, 1583, 32, 1576, 1610, 1575, 1606, 1575, 1578,
      32, 1605, 1578, 1575, 1581, 1577, 46]"

definition msg_connection_error :: jsstring where
  \<comment> \<open>"error connecting to the server.", line 202\<close>
  "msg_connection_error =
     [1582, 1591, 1571, 32, 1601, 1610, 32, 1575, 1604, 1575, 1578, 1589, 1575, 1604,
      32, 1576, 1575, 1604, 1582, 1575, 1583, 1605, 46]"

text \<open>The labels passed to \<^verbatim>\<open>updateDelta\<close> (lines 194 to 196): "not visited", "visited", "total visits".\<close>

definition label_not_visited :: jsstring where
  "label_not_visited = [1604, 1605, 32, 1578, 1586, 1575, 1585]"

definition label_visited :: jsstring where
  "label_visited = [1578, 1605, 1578, 32, 1575, 1604, 1586, 1610, 1575, 1585, 1577]"

definition label_total :: jsstring where
  "label_total =
     [1575, 1580, 1605, 1575, 1604, 1610, 32, 1575, 1604, 1586, 1610, 1575, 1585, 1575, 1578]"

text \<open>\<^verbatim>\<open>if (el) el.textContent = t\<close>.\<close>

definition set_text :: "jsstring \<Rightarrow> jsstring option \<Rightarrow> jsstring option" where
  "set_text t el = (case el of None \<Rightarrow> None | Some _ \<Rightarrow> Some t)"

text \<open>
  The request URL of \<^verbatim>\<open>loadTotals\<close> (lines 139 to 150); \<open>None\<close> when
  \<^verbatim>\<open>encodeURIComponent\<close> throws.
\<close>

definition loadTotals_url :: "js_runtime \<Rightarrow> page \<Rightarrow> jsstring option" where
  "loadTotals_url rt st =
     (let bodySector = getBodySector st;
          filterSector = getSectorKey st;
          filterMuni = getMunicipalityFilter st
      in if str_truthy bodySector then
           Some (lit ''/api/totals/sector/'' @ the bodySector)
         else if str_truthy filterMuni then
           map_option (\<lambda>e. lit ''/api/totals/municipality/'' @ e)
             (rt_encodeURIComponent rt (the filterMuni))
         else if str_truthy filterSector then
           Some (lit ''/api/totals/sector/'' @ the filterSector)
         else Some (lit ''/api/totals''))"

text \<open>\<^verbatim>\<open>x !== null ? Number(x) : null\<close> (lines 163 to 165).\<close>

definition number_unless_null :: "js_runtime \<Rightarrow> jsval \<Rightarrow> jsval" where
  "number_unless_null rt x = (if x \<noteq> JNull then JNum (ToNumber rt x) else JNull)"

text \<open>The success branch of \<^verbatim>\<open>loadTotals\<close> (lines 160 to 198).\<close>

definition loadTotals_render :: "js_runtime \<Rightarrow> totals_json \<Rightarrow> page \<Rightarrow> page" where
  "loadTotals_render rt data st =
     (let visited' = ToNumber rt (js_or (visited data) (JNum (Fin 0)));
          notVisited = ToNumber rt (js_or (not_visited data) (JNum (Fin 0)));
          total' = ToNumber rt (js_or (total data) (JNum (Fin 0)));
          prevVisited = number_unless_null rt (prev_visited data);
          prevNot = number_unless_null rt (prev_not_visited data);
          prevTotal = number_unless_null rt (prev_total data);
          prevDate = js_or (prev_run_date data) JNull
      in st\<lparr>card_visited_value := set_text (num_to_string rt visited') (card_visited_value st),
             card_not_visited_value := set_text (num_to_string rt notVisited) (card_not_visited_value st),
             card_total_value := set_text (num_to_string rt total') (card_total_value st),
             card_not_visited_delta :=
               updateDelta rt prevDate (card_not_visited_delta st) prevNot
                 (delta_not_visited data) label_not_visited,
             card_visited_delta :=
               updateDelta rt prevDate (card_visited_delta st) prevVisited
                 (delta_visited data) label_visited,
             card_total_delta :=
               updateDelta rt prevDate (card_total_delta st) prevTotal
                 (delta_total data) label_total,
             status := set_text [] (status st)\<rparr>)"

text \<open>
  \<^verbatim>\<open>loadTotals\<close>, run to completion against a server that answers the URL requested. A
  throw before the \<^verbatim>\<open>try\<close> leaves the function (\<open>Threw\<close>); an exception inside it
  (a rejected \<^verbatim>\<open>fetch\<close>, an unparsable body, a property read on \<^verbatim>\<open>null\<close>) reaches the
  \<^verbatim>\<open>catch\<close>.
\<close>

definition loadTotals ::
  "js_runtime \<Rightarrow> (jsstring \<Rightarrow> ('e, totals_json) fetch_result) \<Rightarrow> page \<Rightarrow> page \<times> completion" where
  "loadTotals rt fetch st =
     (let st1 = st\<lparr>status := set_text msg_loading (status st)\<rparr>
      in case loadTotals_url rt st1 of
           None \<Rightarrow> (st1, Threw)
         | Some url \<Rightarrow>
             (case fetch url of
                Rejected \<Rightarrow> (st1\<lparr>status := set_text msg_connection_error (status st1)\<rparr>, Returned)
              | HttpError _ \<Rightarrow> (st1\<lparr>status := set_text msg_no_data (status st1)\<rparr>, Returned)
              | HttpOk BadJson \<Rightarrow>
                  (st1\<lparr>status := set_text msg_connection_error (status st1)\<rparr>, Returned)
              | HttpOk JsonNull \<Rightarrow>
                  (st1\<lparr>status := set_text msg_connection_error (status st1)\<rparr>, Returned)
              | HttpOk (JsonObject data) \<Rightarrow> (loadTotals_render rt data st1, Returned)))"

section \<open>Chart: \<^verbatim>\<open>loadChart\<close>\<close>

definition loadChart_query :: "js_runtime \<Rightarrow> page \<Rightarrow> jsstring option" where
  "loadChart_query rt st =
     (let bodySector = getBodySector st;
          muni = getMunicipalityFilter st;
          sector' = getSectorKey st
      in if str_truthy bodySector then
           map_option (\<lambda>e. lit ''?scope=sector&sector='' @ e)
             (rt_encodeURIComponent rt (the bodySector))
         else if str_truthy muni then
           map_option (\<lambda>e. lit ''?scope=municipality&municipality='' @ e)
             (rt_encodeURIComponent rt (the muni))
         else if str_truthy sector' then
           map_option (\<lambda>e. lit ''?scope=sector&sector='' @ e)
             (rt_encodeURIComponent rt (the sector'))
         else Some (lit ''?scope=all''))"

text \<open>
  The dataset labels (lines 364, 370, 380 and 386): "current day - visited", "current day -
  not visited", "previous day - visited", "previous day - not visited".
\<close>

definition label_current_visited :: jsstring where
  "label_current_visited =
     [1575, 1604, 1610, 1608, 1605] @ lit '' '' @ [1575, 1604, 1581, 1575, 1604, 1610]
     @ lit '' - '' @ [1578, 1605, 1578] @ lit '' '' @ [1575, 1604, 1586, 1610, 1575, 1585, 1577]"

definition label_current_not :: jsstring where
  "label_current_not =
     [1575, 1604, 1610, 1608, 1605] @ lit '' '' @ [1575, 1604, 1581, 1575, 1604, 1610]
     @ lit '' - '' @ [1604, 1605] @ lit '' '' @ [1578, 1586, 1575, 1585]"

definition label_prev_visited :: jsstring where
  "label_prev_visited =
     [1575, 1604, 1610, 1608, 1605] @ lit '' '' @ [1575, 1604, 1587, 1575, 1576, 1602]
     @ lit '' - '' @ [1578, 1605, 1578] @ lit '' '' @ [1575, 1604, 1586, 1610, 1575, 1585, 1577]"

definition label_prev_not :: jsstring where
  "label_prev_not =
     [1575, 1604, 1610, 1608, 1605] @ lit '' '' @ [1575, 1604, 1587, 1575, 1576, 1602]
     @ lit '' - '' @ [1604, 1605] @ lit '' '' @ [1578, 1586, 1575, 1585]"

text \<open>The chart configuration built from the response (lines 362 to 396).\<close>

definition chart_of :: "chart_json \<Rightarrow> chart" where
  "chart_of data =
     \<lparr>chart_labels = cj_labels data,
      chart_datasets =
        [\<lparr>ds_label = label_current_visited, ds_data = cj_current_visited data,
          ds_backgroundColor = lit ''#D4AF91'', ds_stack = lit ''current''\<rparr>,
         \<lparr>ds_label = label_current_not, ds_data = cj_current_not data,
          ds_backgroundColor = lit ''#973D4B'', ds_stack = lit ''current''\<rparr>]
        @ (if truthy (cj_has_prev data) then
             [\<lparr>ds_label = label_prev_visited, ds_data = cj_prev_visited data,
               ds_backgroundColor = lit ''#E3A778'', ds_stack = lit ''previous''\<rparr>,
              \<lparr>ds_label = label_prev_not, ds_data = cj_prev_not data,
               ds_backgroundColor = lit ''#973D4B'', ds_stack = lit ''previous''\<rparr>]
           else [])\<rparr>"

text \<open>\<^verbatim>\<open>if (visitsChart) visitsChart.destroy()\<close>: the canvas of a live instance is cleared.\<close>

definition destroy_chart :: "page \<Rightarrow> page" where
  "destroy_chart st = (case visitsChart st of None \<Rightarrow> st | Some _ \<Rightarrow> st\<lparr>canvas_shows := None\<rparr>)"

text \<open>
  \<^verbatim>\<open>loadChart\<close>. A body that is \<^verbatim>\<open>null\<close> raises at the first property read, after the
  previous instance has been destroyed; the \<^verbatim>\<open>catch\<close> only logs.
\<close>

definition loadChart ::
  "js_runtime \<Rightarrow> (jsstring \<Rightarrow> ('e, chart_json) fetch_result) \<Rightarrow> page \<Rightarrow> page \<times> completion" where
  "loadChart rt fetch st =
     (if \<not> canvas_present st then (st, Returned)
      else case loadChart_query rt st of
             None \<Rightarrow> (st, Threw)
           | Some query \<Rightarrow>
               (case fetch (lit ''/api/chart-data/compare'' @ query) of
                  Rejected \<Rightarrow> (st, Returned)
                | HttpError _ \<Rightarrow> (st, Returned)
                | HttpOk BadJson \<Rightarrow> (st, Returned)
                | HttpOk JsonNull \<Rightarrow> (destroy_chart st, Returned)
                | HttpOk (JsonObject data) \<Rightarrow>
                    ((destroy_chart st)\<lparr>visitsChart := Some (chart_of data),
                                         canvas_shows := Some (chart_of data)\<rparr>, Returned)))"

section \<open>Tables: \<^verbatim>\<open>buildTableHtml\<close> and the search box\<close>

text \<open>
  A row is a JSON object: its own keys in the order \<^verbatim>\<open>Object.keys\<close> lists them, each
  with its value, and behind them the properties it inherits from \<^verbatim>\<open>Object.prototype\<close>.
  \<^verbatim>\<open>c in row\<close> holds of an own key and of an inherited name alike; \<^verbatim>\<open>row[c]\<close> is the
  own value, else the inherited member, else \<^verbatim>\<open>undefined\<close>.
\<close>

type_synonym row = "(jsstring \<times> jsval) list"

definition Object_keys :: "row \<Rightarrow> jsstring list" where
  "Object_keys r = map fst r"

definition has_key :: "jsstring \<Rightarrow> row \<Rightarrow> bool" where
  "has_key c r \<longleftrightarrow> c \<in> set (Object_keys r)"

definition js_in :: "js_runtime \<Rightarrow> jsstring \<Rightarrow> row \<Rightarrow> bool" where
  "js_in rt c r \<longleftrightarrow> has_key c r \<or> rt_ObjectPrototype rt c \<noteq> None"

definition get_prop :: "js_runtime \<Rightarrow> row \<Rightarrow> jsstring \<Rightarrow> jsval" where
  "get_prop rt r c =
     (case map_of r c of
        Some v \<Rightarrow> v
      | None \<Rightarrow> (case rt_ObjectPrototype rt c of Some v \<Rightarrow> v | None \<Rightarrow> JUndefined))"

definition html_table_empty :: jsstring where
  \<comment> \<open>the placeholder of line 209: a div saying "no data to show."\<close>
  "html_table_empty =
     lit ''<div class='' @ [34] @ lit ''table-empty'' @ [34] @ lit ''>'' @ [1604, 1575]
     @ lit '' '' @ [1578, 1608, 1580, 1583] @ lit '' '' @ [1576, 1610, 1575, 1606, 1575, 1578]
     @ lit '' '' @ [1604, 1593, 1585, 1590, 1607, 1575] @ lit ''.</div>''"

definition html_title_open :: jsstring where
  "html_title_open = lit ''<div class='' @ [34] @ lit ''table-title'' @ [34] @ lit ''>''"

definition html_table_open :: jsstring where
  "html_table_open =
     lit ''<div class='' @ [34] @ lit ''table-wrapper'' @ [34] @ lit ''><table class='' @ [34]
     @ lit ''data-table'' @ [34] @ lit ''><thead><tr>''"

text \<open>The columns chosen from the first row (lines 211 to 218).\<close>

definition table_columns :: "js_runtime \<Rightarrow> row \<Rightarrow> jsstring list option \<Rightarrow> jsstring list" where
  "table_columns rt first preferredOrder =
     (let cols = (case preferredOrder of
                    None \<Rightarrow> []
                  | Some po \<Rightarrow> if length po > 0 then filter (\<lambda>c. js_in rt c first) po else [])
      in if length cols = 0 then Object_keys first else cols)"

text \<open>One cell and one body row (lines 229 to 234).\<close>

definition cell_html :: "js_runtime \<Rightarrow> jsval \<Rightarrow> jsstring" where
  "cell_html rt val =
     lit ''<td>'' @ (if val = JNull \<or> val = JUndefined then [] else ToString rt val) @ lit ''</td>''"

definition row_html :: "js_runtime \<Rightarrow> jsstring list \<Rightarrow> row \<Rightarrow> jsstring" where
  "row_html rt cols r =
     lit ''<tr>'' @ concat (map (\<lambda>c. cell_html rt (get_prop rt r c)) cols) @ lit ''</tr>''"

definition buildTableHtml ::
  "js_runtime \<Rightarrow> row list option \<Rightarrow> jsstring list option \<Rightarrow> jsstring option \<Rightarrow> jsstring" where
  "buildTableHtml rt rows preferredOrder title =
     (case rows of
        None \<Rightarrow> html_table_empty
      | Some [] \<Rightarrow> html_table_empty
      | Some (first # rest) \<Rightarrow>
          (let cols = table_columns rt first preferredOrder
           in (if str_truthy title then html_title_open @ the title @ lit ''</div>'' else [])
              @ html_table_open
              @ concat (map (\<lambda>c. lit ''<th>'' @ c @ lit ''</th>'') cols)
              @ lit ''</tr></thead><tbody>''
              @ concat (map (row_html rt cols) (first # rest))
              @ lit ''</tbody></table></div>''))"

text \<open>
  A rendered body row as the search box sees it: its \<^verbatim>\<open>textContent\<close> and its
  \<^verbatim>\<open>style.display\<close>.
\<close>

record tr_el =
  tr_textContent :: jsstring
  tr_display :: jsstring

text \<open>\<^verbatim>\<open>String.prototype.trim\<close>: white space and line terminators are removed at both ends.\<close>

definition is_white_space :: "nat \<Rightarrow> bool" where
  "is_white_space c \<longleftrightarrow>
     c \<in> {9, 10, 11, 12, 13, 32, 160, 5760, 8232, 8233, 8239, 8287, 12288, 65279}
     \<or> (8192 \<le> c \<and> c \<le> 8202)"

definition trim :: "jsstring \<Rightarrow> jsstring" where
  "trim s = rev (dropWhile is_white_space (rev (dropWhile is_white_space s)))"

text \<open>
  \<^verbatim>\<open>setupSearchForContainer\<close>: the listener is installed when the container has a search
  input and a table with a body; it closes over the rows the body has at that moment.
\<close>

record container =
  has_table_search :: bool
  tbody_rows :: "tr_el list option"

definition setupSearchForContainer :: "container \<Rightarrow> tr_el list option" where
  "setupSearchForContainer c = (if \<not> has_table_search c then None else tbody_rows c)"

text \<open>The \<^verbatim>\<open>input\<close> listener (lines 248 to 258), on the value of the search box.\<close>

definition search_onInput :: "js_runtime \<Rightarrow> jsstring \<Rightarrow> tr_el list \<Rightarrow> tr_el list" where
  "search_onInput rt input_value rows =
     (let q = rt_toLowerCase rt (trim input_value)
      in if q = [] then map (\<lambda>r. r\<lparr>tr_display := []\<rparr>) rows
         else map (\<lambda>r. let text = rt_toLowerCase rt (tr_textContent r)
                       in r\<lparr>tr_display := (if str_includes text q then [] else lit ''none'')\<rparr>) rows)"

section \<open>Municipality details: \<^verbatim>\<open>loadMunicipalityDetails\<close>\<close>

text \<open>
  \<^verbatim>\<open>Number.prototype.toFixed(1)\<close>: the sign, then the integer \<open>n\<close> nearest to ten times
  the magnitude (the larger one on a tie) with a point before its last digit; a magnitude
  of \<open>10^21\<close> or more and the non-finite values print as \<^verbatim>\<open>Number::toString\<close> does.
\<close>

definition toFixed1 :: "js_runtime \<Rightarrow> jsnum \<Rightarrow> jsstring" where
  "toFixed1 rt x =
     (case x of
        Fin q \<Rightarrow>
          (let s = (if q < 0 then lit ''-'' else []); a = \<bar>q\<bar>
           in if 10 ^ 21 \<le> a then s @ num_to_string rt (Fin a)
              else let n = nat \<lfloor>a * 10 + 1 / 2\<rfloor>
                   in s @ digits (n div 10) @ lit ''.'' @ digits (n mod 10))
      | _ \<Rightarrow> num_to_string rt x)"

definition key_total_licences :: jsstring where
  \<comment> \<open>the column "total licences" (line 296)\<close>
  "key_total_licences = [1573, 1580, 1605, 1575, 1604, 1610, 95, 1575, 1604, 1585, 1582, 1589]"

definition key_visited :: jsstring where
  \<comment> \<open>the column "visited" (line 297)\<close>
  "key_visited = [1578, 1605, 1578, 32, 1575, 1604, 1586, 1610, 1575, 1585, 1577]"

definition key_percentage :: jsstring where
  \<comment> \<open>the column "percentage" (line 299)\<close>
  "key_percentage = [1575, 1604, 1606, 1587, 1576, 1577]"

definition key_category :: jsstring where
  "key_category = [1575, 1604, 1578, 1589, 1606, 1610, 1601]"

definition key_not_visited :: jsstring where
  "key_not_visited = [1604, 1605, 32, 1578, 1586, 1575, 1585]"

text \<open>
  \<^verbatim>\<open>{ ...row, [k]: v }\<close>: an own key keeps its place and takes the new value, a new key
  goes last.
\<close>

definition obj_with :: "jsstring \<Rightarrow> jsval \<Rightarrow> row \<Rightarrow> row" where
  "obj_with k v r =
     (if has_key k r then map (\<lambda>(k', v'). if k' = k then (k', v) else (k', v')) r
      else r @ [(k, v)])"

text \<open>The percentage of a summary row and the callback of \<^verbatim>\<open>summaryRows.map\<close> (lines 295 to 300).\<close>

definition row_pct :: "js_runtime \<Rightarrow> row \<Rightarrow> jsnum" where
  "row_pct rt r =
     (let total' = ToNumber rt (js_nullish (get_prop rt r key_total_licences) (JNum (Fin 0)));
          visited' = ToNumber rt (js_nullish (get_prop rt r key_visited) (JNum (Fin 0)))
      in if num_gt0 total' then rt_multiply rt (rt_divide rt visited' total') (Fin 100)
         else Fin 0)"

definition with_percentage :: "js_runtime \<Rightarrow> row \<Rightarrow> row" where
  "with_percentage rt r = obj_with key_percentage (JStr (toFixed1 rt (row_pct rt r) @ lit ''%'')) r"

definition summaryOrder :: "jsstring list" where
  "summaryOrder = [key_category, key_total_licences, key_visited, key_not_visited, key_percentage]"

definition rawOrder :: "jsstring list" where
  "rawOrder =
    [[1585, 1602, 1605] @ lit '' '' @ [1575, 1604, 1586, 1610, 1575, 1585, 1577],
     [1575, 1604, 1575, 1605, 1575, 1606, 1577],
     [1575, 1604, 1576, 1604, 1583, 1610, 1577],
     [1575, 1587, 1605] @ lit '' '' @ [1575, 1604, 1581, 1610],
     [1575, 1587, 1605] @ lit '' '' @ [1575, 1604, 1605, 1585, 1575, 1602, 1576],
     [1578, 1575, 1585, 1610, 1582] @ lit '' '' @ [1608, 1608, 1602, 1578] @ lit '' ''
       @ [1575, 1604, 1575, 1587, 1606, 1575, 1583],
     [1578, 1575, 1585, 1610, 1582] @ lit '' '' @ [1575, 1604, 1575, 1587, 1606, 1575, 1583],
     [1608, 1602, 1578] @ lit ''  '' @ [1575, 1587, 1606, 1575, 1583] @ lit '' ''
       @ [1575, 1604, 1586, 1610, 1575, 1585, 1577],
     [1578, 1575, 1585, 1610, 1582] @ lit '' '' @ [1576, 1583, 1569] @ lit '' ''
       @ [1575, 1604, 1586, 1610, 1575, 1585, 1577],
     [1578, 1575, 1585, 1610, 1582] @ lit '' '' @ [1575, 1606, 1607, 1575, 1569] @ lit '' ''
       @ [1575, 1604, 1586, 1610, 1575, 1585, 1577],
     [1605, 1583, 1577] @ lit '' '' @ [1575, 1604, 1586, 1610, 1575, 1585, 1577],
     [1606, 1608, 1593] @ lit '' '' @ [1575, 1604, 1585, 1602, 1575, 1576, 1577],
     [1583, 1585, 1580, 1577] @ lit '' '' @ [1582, 1591, 1608, 1585, 1577] @ lit '' ''
       @ [1575, 1604, 1606, 1588, 1575, 1591],
     [1583, 1585, 1580, 1577] @ lit '' '' @ [1575, 1604, 1575, 1605, 1578, 1579, 1575, 1604],
     [1585, 1602, 1605] @ lit '' '' @ [1575, 1604, 1576, 1604, 1575, 1594],
     [1581, 1575, 1604, 1577] @ lit '' '' @ [1575, 1604, 1586, 1610, 1575, 1585, 1577],
     [1606, 1608, 1593] @ lit '' '' @ [1575, 1604, 1586, 1610, 1575, 1585, 1577],
     [1585, 1602, 1605] @ lit '' '' @ [1575, 1604, 1580, 1607, 1577],
     [1575, 1587, 1605] @ lit '' '' @ [1575, 1604, 1580, 1607, 1577],
     [1602, 1610, 1605, 1577] @ lit '' '' @ [1575, 1604, 1605, 1582, 1575, 1604, 1601, 1577],
     [1607, 1604] @ lit '' '' @ [1575, 1604, 1605, 1582, 1575, 1604, 1601, 1577] @ lit '' ''
       @ [1575, 1606, 1584, 1575, 1585],
     [1585, 1602, 1605] @ lit '' '' @ [1576, 1606, 1583] @ lit '' ''
       @ [1575, 1604, 1604, 1575, 1574, 1581, 1577],
     [1585, 1602, 1605] @ lit '' '' @ [1575, 1604, 1585, 1582, 1589, 1577],
     [1575, 1587, 1605] @ lit '' '' @ [1575, 1604, 1605, 1606, 1588, 1571, 1577],
     [1575, 1604, 1605, 1585, 1581, 1604, 1577],
     [1593, 1583, 1583] @ lit '' '' @ [1575, 1604, 1576, 1606, 1608, 1583] @ lit '' ''
       @ [1575, 1604, 1594, 1610, 1585] @ lit '' '' @ [1605, 1605, 1578, 1579, 1604, 1577],
     [1575, 1587, 1605] @ lit '' '' @ [1575, 1604, 1575, 1583, 1575, 1585, 1577],
     lit ''license_id_str'',
     [1575, 1604, 1581, 1575, 1604, 1575, 1578],
     lit ''MUNICIPALITY_EN'',
     [1575, 1604, 1578, 1589, 1606, 1610, 1601]]"

definition html_choose_municipality :: jsstring where
  \<comment> \<open>line 276: "choose a municipality to show the details"\<close>
  "html_choose_municipality =
     lit ''<div class='' @ [39] @ lit ''table-empty'' @ [39] @ lit ''>'' @ [1575, 1582, 1578, 1585]
     @ lit '' '' @ [1576, 1604, 1583, 1610, 1607] @ lit '' '' @ [1604, 1593, 1585, 1590]
     @ lit '' '' @ [1575, 1604, 1578, 1601, 1575, 1589, 1610, 1604] @ lit ''</div>''"

definition html_details_loading :: jsstring where
  \<comment> \<open>line 281: "loading the municipality details..."\<close>
  "html_details_loading =
     lit ''<div class='' @ [39] @ lit ''table-loading'' @ [39] @ lit ''>'' @ [1580, 1575, 1585, 1610]
     @ lit '' '' @ [1578, 1581, 1605, 1610, 1604] @ lit '' '' @ [1578, 1601, 1575, 1589, 1610, 1604]
     @ lit '' '' @ [1575, 1604, 1576, 1604, 1583, 1610, 1577] @ lit ''...</div>''"

definition msg_details_failed :: jsstring where
  \<comment> \<open>line 288: "could not load the municipality details."\<close>
  "msg_details_failed =
     [1578, 1593, 1584, 1585] @ lit '' '' @ [1578, 1581, 1605, 1610, 1604] @ lit '' ''
     @ [1578, 1601, 1575, 1589, 1610, 1604] @ lit '' '' @ [1575, 1604, 1576, 1604, 1583, 1610, 1577]
     @ lit ''.''"

definition html_error_open :: jsstring where
  "html_error_open = lit ''<div class='' @ [39] @ lit ''table-error'' @ [39] @ lit ''>''"

definition html_details_connection_error :: jsstring where
  \<comment> \<open>line 336: "connection error."\<close>
  "html_details_connection_error =
     html_error_open @ [1582, 1591, 1571] @ lit '' '' @ [1601, 1610] @ lit '' ''
     @ [1575, 1604, 1575, 1578, 1589, 1575, 1604] @ lit ''.</div>''"

definition html_summary_head :: jsstring where
  \<comment> \<open>lines 314 to 320, up to the table\<close>
  "html_summary_head =
     [10] @ lit ''      <div class='' @ [34] @ lit ''table-title'' @ [34] @ lit ''>''
     @ [1605, 1604, 1582, 1589] @ lit '' '' @ [1575, 1604, 1586, 1610, 1575, 1585, 1575, 1578]
     @ lit '' '' @ [1581, 1587, 1576] @ lit '' '' @ [1575, 1604, 1578, 1589, 1606, 1610, 1601]
     @ lit ''</div>'' @ [10] @ lit ''      <div class='' @ [34] @ lit ''search-container'' @ [34]
     @ lit ''>'' @ [10] @ lit ''        <input type='' @ [34] @ lit ''text'' @ [34]
     @ lit '' class='' @ [34] @ lit ''table-search search-input'' @ [34] @ lit '' placeholder=''
     @ [34, 1576, 1581, 1579] @ lit ''...'' @ [34] @ lit '' />'' @ [10]
     @ lit ''        <span class='' @ [34] @ lit ''search-icon'' @ [34] @ lit ''>''
     @ [55357, 56589] @ lit ''</span>'' @ [10] @ lit ''      </div>'' @ [10] @ lit ''      ''"

definition html_raw_head :: jsstring where
  \<comment> \<open>lines 324 to 329, up to the table\<close>
  "html_raw_head =
     [10] @ lit ''      <div class='' @ [34] @ lit ''table-title'' @ [34] @ lit ''>''
     @ [1575, 1604, 1586, 1610, 1575, 1585, 1575, 1578] @ lit '' ''
     @ [1608, 1581, 1575, 1604, 1575, 1578, 1607, 1575] @ lit '' </div>'' @ [10]
     @ lit ''      <div class='' @ [34] @ lit ''search-container'' @ [34] @ lit ''>'' @ [10]
     @ lit ''        <input type='' @ [34] @ lit ''text'' @ [34] @ lit '' class='' @ [34]
     @ lit ''table-search search-input'' @ [34] @ lit '' placeholder='' @ [34, 1576, 1581, 1579]
     @ lit ''...'' @ [34] @ lit '' />'' @ [10] @ lit ''      </div>'' @ [10] @ lit ''      ''"

definition html_tail :: jsstring where
  "html_tail = [10] @ lit ''    ''"

record details_json =
  dj_summary :: "row list option"
  dj_raw :: "row list option"

text \<open>The two containers after a successful response (lines 293 to 330).\<close>

definition details_render :: "js_runtime \<Rightarrow> details_json \<Rightarrow> page \<Rightarrow> page" where
  "details_render rt data st =
     (let summaryRows = map (with_percentage rt) (case dj_summary data of None \<Rightarrow> [] | Some rs \<Rightarrow> rs);
          rawRows = (case dj_raw data of None \<Rightarrow> [] | Some rs \<Rightarrow> rs)
      in st\<lparr>muni_summary_table :=
               Some (html_summary_head @ buildTableHtml rt (Some summaryRows) (Some summaryOrder) None
                     @ html_tail),
             muni_raw_table :=
               Some (html_raw_head @ buildTableHtml rt (Some rawRows) (Some rawOrder) None
                     @ html_tail)\<rparr>)"

text \<open>
  \<^verbatim>\<open>loadMunicipalityDetails\<close>. The error body carries the value of its \<^verbatim>\<open>error\<close>
  property; an unparsable error body is replaced by the empty object. Every exception is
  raised inside the \<^verbatim>\<open>try\<close>.
\<close>

definition loadMunicipalityDetails ::
  "js_runtime \<Rightarrow> (jsstring \<Rightarrow> (jsval, details_json) fetch_result) \<Rightarrow> page \<Rightarrow> page \<times> completion" where
  "loadMunicipalityDetails rt fetch st =
     (if muni_summary_table st = None \<or> muni_raw_table st = None then (st, Returned)
      else if str_truthy (getBodySector st) then
        (st\<lparr>muni_summary_table := Some [], muni_raw_table := Some []\<rparr>, Returned)
      else
        let muni = getMunicipalityFilter st
        in if \<not> str_truthy muni then
             (st\<lparr>muni_summary_table := Some html_choose_municipality,
                  muni_raw_table := Some []\<rparr>, Returned)
           else
             let st1 = st\<lparr>muni_summary_table := Some html_details_loading,
                           muni_raw_table := Some []\<rparr>;
                 failed = st1\<lparr>muni_summary_table := Some html_details_connection_error\<rparr>
             in case rt_encodeURIComponent rt (the muni) of
                  None \<Rightarrow> (failed, Returned)
                | Some e \<Rightarrow>
                    (case fetch (lit ''/api/municipality/'' @ e @ lit ''/details'') of
                       Rejected \<Rightarrow> (failed, Returned)
                     | HttpError JsonNull \<Rightarrow> (failed, Returned)
                     | HttpError BadJson \<Rightarrow>
                         (st1\<lparr>muni_summary_table :=
                                 Some (html_error_open @ msg_details_failed @ lit ''</div>'')\<rparr>,
                          Returned)
                     | HttpError (JsonObject err) \<Rightarrow>
                         (st1\<lparr>muni_summary_table :=
                                 Some (html_error_open
                                       @ ToString rt (js_or err (JStr msg_details_failed))
                                       @ lit ''</div>'')\<rparr>,
                          Returned)
                     | HttpOk BadJson \<Rightarrow> (failed, Returned)
                     | HttpOk JsonNull \<Rightarrow> (failed, Returned)
                     | HttpOk (JsonObject data) \<Rightarrow> (details_render rt data st1, Returned)))"

section \<open>Filter controls: the listeners of \<^verbatim>\<open>setupHomeFilters\<close>\<close>

text \<open>
  The municipality select: its options (value and text) and its \<^verbatim>\<open>disabled\<close> flag. The
  sector metadata maps a sector key to its label and its municipalities (\<open>None\<close> when the
  field is not an array).
\<close>

record select_el =
  sel_options :: "(jsstring \<times> jsstring) list"
  sel_disabled :: bool

record sector_info =
  si_label :: jsval
  si_municipalities :: "jsstring list option"

type_synonym sector_meta = "(jsstring \<times> sector_info) list"

datatype loader = LoadMunicipalityDetails | LoadTotals | LoadChart

definition all_municipalities_option :: "jsstring \<times> jsstring" where
  \<comment> \<open>the option of lines 97 and 106: empty value, text "all municipalities"\<close>
  "all_municipalities_option =
     ([], [1603, 1604, 32, 1575, 1604, 1576, 1604, 1583, 1610, 1575, 1578])"

text \<open>
  The \<^verbatim>\<open>change\<close> listener of the sector select (lines 92 to 120), on the value of the
  select; it returns the page, the municipality select and the loaders it starts, in order.
\<close>

definition sectorSelect_onChange ::
  "sector_meta \<Rightarrow> jsstring \<Rightarrow> page \<times> select_el \<Rightarrow> (page \<times> select_el) \<times> loader list" where
  "sectorSelect_onChange sectorMeta val ps =
     (let st = fst ps; muniSelect = snd ps
      in if val = [] then
           ((st\<lparr>currentFilter := \<lparr>sector = None, municipality = None\<rparr>\<rparr>,
             muniSelect\<lparr>sel_options := [all_municipalities_option], sel_disabled := True\<rparr>),
            [LoadMunicipalityDetails, LoadTotals, LoadChart])
         else
           ((st\<lparr>currentFilter := \<lparr>sector = Some val, municipality = None\<rparr>\<rparr>,
             muniSelect\<lparr>sel_options :=
                          all_municipalities_option #
                          (case map_of sectorMeta val of
                             None \<Rightarrow> []
                           | Some info \<Rightarrow>
                               (case si_municipalities info of
                                  None \<Rightarrow> []
                                | Some ms \<Rightarrow> map (\<lambda>m. (m, m)) ms)),
                        sel_disabled := False\<rparr>),
            [LoadMunicipalityDetails, LoadTotals, LoadChart]))"

text \<open>The \<^verbatim>\<open>change\<close> listener of the municipality select (lines 122 to 128).\<close>

definition muniSelect_onChange :: "jsstring \<Rightarrow> page \<Rightarrow> page \<times> loader list" where
  "muniSelect_onChange val st =
     (st\<lparr>currentFilter := (currentFilter st)\<lparr>municipality := (if val = [] then None else Some val)\<rparr>\<rparr>,
      [LoadMunicipalityDetails, LoadTotals, LoadChart])"

section \<open>A host for evaluating examples\<close>

text \<open>
  A fixed host on which the functions above can be run. It agrees with a browser on the
  inputs of the examples below: ASCII letters for lower-casing, strings of unreserved
  characters for URI encoding, and quotients and products that binary64 represents exactly.
  Its \<^verbatim>\<open>Object.prototype\<close> has the standard members: \<^verbatim>\<open>constructor\<close>, which is the
  function \<^verbatim>\<open>Object\<close>, ten methods, each printed in the form of a native function, and
  the accessor \<^verbatim>\<open>__proto__\<close>, which yields the prototype itself.
\<close>

definition native_function :: "string \<Rightarrow> jsval" where
  "native_function name = JObj (lit ''function '' @ lit name @ lit ''() { [native code] }'')"

definition standard_ObjectPrototype :: "(jsstring \<times> jsval) list" where
  "standard_ObjectPrototype =
     (lit ''constructor'', native_function ''Object'')
     # map (\<lambda>name. (lit name, native_function name))
         [''hasOwnProperty'', ''isPrototypeOf'', ''propertyIsEnumerable'',
          ''toLocaleString'', ''toString'', ''valueOf'', ''__defineGetter__'',
          ''__defineSetter__'', ''__lookupGetter__'', ''__lookupSetter__'']
     @ [(lit ''__proto__'', JObj (lit ''[object Object]''))]"

definition ascii_lower :: "jsstring \<Rightarrow> jsstring" where
  "ascii_lower s = map (\<lambda>c. if 65 \<le> c \<and> c \<le> 90 then c + 32 else c) s"

definition unreserved :: "nat \<Rightarrow> bool" where
  "unreserved c \<longleftrightarrow>
     (65 \<le> c \<and> c \<le> 90) \<or> (97 \<le> c \<and> c \<le> 122) \<or> (48 \<le> c \<and> c \<le> 57)
     \<or> c \<in> {45, 95, 46, 33, 126, 42, 39, 40, 41}"

definition exact_divide :: "jsnum \<Rightarrow> jsnum \<Rightarrow> jsnum" where
  "exact_divide a b =
     (case (a, b) of
        (Fin x, Fin y) \<Rightarrow>
          if y \<noteq> 0 then Fin (x / y) else if 0 < x then PInf else if x < 0 then NInf else NaN
      | _ \<Rightarrow> NaN)"

definition exact_multiply :: "jsnum \<Rightarrow> jsnum \<Rightarrow> jsnum" where
  "exact_multiply a b = (case (a, b) of (Fin x, Fin y) \<Rightarrow> Fin (x * y) | _ \<Rightarrow> NaN)"

definition example_host :: js_runtime where
  "example_host =
     \<lparr>rt_StringToNumber = (\<lambda>s. NaN),
      rt_NumberToString = (\<lambda>x. []),
      rt_divide = exact_divide,
      rt_multiply = exact_multiply,
      rt_toLowerCase = ascii_lower,
      rt_encodeURIComponent = (\<lambda>s. if list_all unreserved s then Some s else None),
      rt_ObjectPrototype = map_of standard_ObjectPrototype\<rparr>"

text \<open>
  The table of the specification, written from its words: the columns are the preferred
  order filtered to the keys of the first row, or the first row's own keys when none is
  left; a cell is empty for a \<^verbatim>\<open>null\<close> or absent value and the string form of the
  value otherwise; the markup lays the cells out row by row.
\<close>

definition spec_columns :: "row \<Rightarrow> jsstring list \<Rightarrow> jsstring list" where
  "spec_columns first preferredColumnOrder =
     (let present = filter (\<lambda>c. c \<in> fst ` set first) preferredColumnOrder
      in if present = [] then map fst first else present)"

definition spec_cell :: "js_runtime \<Rightarrow> row \<Rightarrow> jsstring \<Rightarrow> jsstring" where
  "spec_cell rt r c =
     (case map_of r c of
        None \<Rightarrow> []
      | Some v \<Rightarrow> if absent v then [] else ToString rt v)"

definition table_markup :: "jsstring option \<Rightarrow> jsstring list \<Rightarrow> jsstring list list \<Rightarrow> jsstring" where
  "table_markup title cols grid =
     (case title of
        None \<Rightarrow> []
      | Some t \<Rightarrow> if t = [] then [] else html_title_open @ t @ lit ''</div>'')
     @ html_table_open
     @ concat (map (\<lambda>c. lit ''<th>'' @ c @ lit ''</th>'') cols)
     @ lit ''</tr></thead><tbody>''
     @ concat (map (\<lambda>cells. lit ''<tr>'' @ concat (map (\<lambda>t. lit ''<td>'' @ t @ lit ''</td>'') cells)
                              @ lit ''</tr>'') grid)
     @ lit ''</tbody></table></div>''"

text \<open>
  The request of each view by scope, as the specification lists the endpoints: the base
  endpoint, suffixed by the sector key or by the URL-encoded municipality name when scoped;
  for the chart, the query string naming the scope. \<open>None\<close> stands for the \<^verbatim>\<open>URIError\<close>
  of the encoding.
\<close>

definition totals_url_of_scope :: "js_runtime \<Rightarrow> scope \<Rightarrow> jsstring option" where
  "totals_url_of_scope rt sc =
     (case sc of
        AllData \<Rightarrow> Some (lit ''/api/totals'')
      | BySector key \<Rightarrow> Some (lit ''/api/totals/sector/'' @ key)
      | ByMunicipality name \<Rightarrow>
          map_option (\<lambda>e. lit ''/api/totals/municipality/'' @ e) (rt_encodeURIComponent rt name))"

definition chart_query_of_scope :: "js_runtime \<Rightarrow> scope \<Rightarrow> jsstring option" where
  "chart_query_of_scope rt sc =
     (case sc of
        AllData \<Rightarrow> Some (lit ''?scope=all'')
      | BySector key \<Rightarrow>
          map_option (\<lambda>e. lit ''?scope=sector&sector='' @ e) (rt_encodeURIComponent rt key)
      | ByMunicipality name \<Rightarrow>
          map_option (\<lambda>e. lit ''?scope=municipality&municipality='' @ e)
            (rt_encodeURIComponent rt name))"

text \<open>
  The only request the details view may make: the details of the municipality of the scope.
  Two servers are alike for a scope when they answer that request alike.
\<close>

definition details_alike ::
  "js_runtime \<Rightarrow> scope \<Rightarrow> (jsstring \<Rightarrow> (jsval, details_json) fetch_result)
     \<Rightarrow> (jsstring \<Rightarrow> (jsval, details_json) fetch_result) \<Rightarrow> bool" where
  "details_alike rt sc fetch fetch' =
     (case sc of
        ByMunicipality name \<Rightarrow>
          (case rt_encodeURIComponent rt name of
             None \<Rightarrow> True
           | Some e \<Rightarrow> fetch (lit ''/api/municipality/'' @ e @ lit ''/details'')
                       = fetch' (lit ''/api/municipality/'' @ e @ lit ''/details''))
      | _ \<Rightarrow> True)"

text \<open>A page with every element present and empty, no bound sector and nothing selected.\<close>

definition blank_page :: page where
  "blank_page =
     \<lparr>body_data_sector = None,
      currentFilter = \<lparr>sector = None, municipality = None\<rparr>,
      status = Some [],
      card_visited_value = Some [],
      card_not_visited_value = Some [],
      card_total_value = Some [],
      card_visited_delta = Some \<lparr>el_text = [], el_classes = []\<rparr>,
      card_not_visited_delta = Some \<lparr>el_text = [], el_classes = []\<rparr>,
      card_total_delta = Some \<lparr>el_text = [], el_classes = []\<rparr>,
      canvas_present = True,
      visitsChart = None,
      canvas_shows = None,
      muni_summary_table = Some [],
      muni_raw_table = Some []\<rparr>"

text \<open>A totals response with a previous run: 10 visited (8 before), 5 not visited, 15 in all.\<close>

definition example_totals :: totals_json where
  "example_totals =
     \<lparr>visited = JNum (Fin 10), not_visited = JNum (Fin 5), total = JNum (Fin 15),
      prev_visited = JNum (Fin 8), prev_not_visited = JNum (Fin 5), prev_total = JNum (Fin 13),
      delta_visited = JNum (Fin 2), delta_not_visited = JNum (Fin 0), delta_total = JNum (Fin 2),
      prev_run_date = JStr (lit ''2024-05-01'')\<rparr>"

text \<open>
  The search of the specification, written from its words: a row stays visible when the
  query is empty or occurs in the row's text, both taken in lower case; otherwise it is
  hidden.
\<close>

definition contains_ci :: "js_runtime \<Rightarrow> jsstring \<Rightarrow> jsstring \<Rightarrow> bool" where
  "contains_ci rt text query = str_includes (rt_toLowerCase rt text) (rt_toLowerCase rt query)"

definition search_spec :: "js_runtime \<Rightarrow> jsstring \<Rightarrow> tr_el list \<Rightarrow> tr_el list" where
  "search_spec rt query rows =
     map (\<lambda>r. r\<lparr>tr_display := (if query = [] \<or> contains_ci rt (tr_textContent r) query then []
                                  else lit ''none'')\<rparr>) rows"

text \<open>
  The municipalities list of a sector in the metadata; empty when the metadata does not
  have the sector or the sector has no list.
\<close>

definition sector_municipalities :: "sector_meta \<Rightarrow> jsstring \<Rightarrow> jsstring list" where
  "sector_municipalities sectorMeta key =
     (case map_of sectorMeta key of
        None \<Rightarrow> []
      | Some info \<Rightarrow> (case si_municipalities info of None \<Rightarrow> [] | Some ms \<Rightarrow> ms))"

section \<open>Basic facts\<close>

lemma starts_with_iff: "starts_with xs q \<longleftrightarrow> (\<exists>s. xs = q @ s)"
  by (induction xs q rule: starts_with.induct) auto

lemma starts_with_append [simp]: "starts_with (p @ s) p"
  by (simp add: starts_with_iff)

lemma starts_with_cancel [simp]: "starts_with (a @ s) (a @ b) = starts_with s b"
  by (induction a) auto

lemma starts_with_self [simp]: "starts_with p p"
  by (simp add: starts_with_iff)

lemma str_includes_iff: "str_includes xs q \<longleftrightarrow> (\<exists>p s. xs = p @ q @ s)"
proof (induction xs)
  case Nil
  then show ?case by auto
next
  case (Cons x xs)
  show ?case
  proof
    assume "str_includes (x # xs) q"
    then consider "starts_with (x # xs) q" | "str_includes xs q" by auto
    then show "\<exists>p s. x # xs = p @ q @ s"
    proof cases
      case 1
      then obtain s where "x # xs = q @ s" by (auto simp: starts_with_iff)
      then have "x # xs = [] @ q @ s" by simp
      then show ?thesis by blast
    next
      case 2
      then obtain p s where "xs = p @ q @ s" using Cons.IH by blast
      then have "x # xs = (x # p) @ q @ s" by simp
      then show ?thesis by blast
    qed
  next
    assume "\<exists>p s. x # xs = p @ q @ s"
    then obtain p s where e: "x # xs = p @ q @ s" by blast
    show "str_includes (x # xs) q"
    proof (cases p)
      case Nil
      with e have "starts_with (x # xs) q" by (simp add: starts_with_iff)
      then show ?thesis by simp
    next
      case (Cons a p')
      with e have "xs = p' @ q @ s" by simp
      then have "str_includes xs q" using Cons.IH by blast
      then show ?thesis by simp
    qed
  qed
qed

lemma delta_classes_distinct:
  "delta_positive \<noteq> delta_negative" "delta_positive \<noteq> delta_neutral"
  "delta_negative \<noteq> delta_neutral" "delta_negative \<noteq> delta_positive"
  "delta_neutral \<noteq> delta_positive" "delta_neutral \<noteq> delta_negative"
  by (simp_all add: delta_positive_def delta_negative_def delta_neutral_def lit_def)

lemma has_only_class_after:
  assumes "c \<in> {delta_positive, delta_negative, delta_neutral}"
  shows "has_only_class c' \<lparr>el_text = t,
           el_classes = classList_add c
             (classList_remove [delta_positive, delta_negative, delta_neutral] cs)\<rparr> \<longleftrightarrow> c' = c"
  using assms delta_classes_distinct
  by (auto simp: has_only_class_def classList_add_def classList_remove_def)

lemma no_prior_not_no_change: "\<not> starts_with (msg_no_prior_run @ l) msg_no_change"
  by (simp add: msg_no_prior_run_def msg_no_change_def)

lemma no_change_not_no_prior: "msg_no_change @ t \<noteq> msg_no_prior_run @ l"
  by (simp add: msg_no_prior_run_def msg_no_change_def)

lemma js_or_null_absent: "absent (js_or date JNull) \<longleftrightarrow> \<not> truthy date"
  by (cases date) (auto simp: absent_def js_or_def truthy_def)

lemma js_or_null_eq: "js_or date JNull = JNull \<longleftrightarrow> \<not> truthy date"
  by (cases date) (auto simp: js_or_def truthy_def)

lemma js_or_null_defined: "js_or date JNull \<noteq> JUndefined"
  by (cases date) (auto simp: js_or_def truthy_def)

lemma gt_lt_exclusive: "js_gt0 rt v \<Longrightarrow> \<not> js_lt0 rt v"
  by (auto simp: js_gt0_def js_lt0_def num_gt0_def num_lt0_def split: jsnum.splits)

lemma digits_small: "n < 10 \<Longrightarrow> digits n = [48 + n]"
  by (simp add: digits.simps)

lemma lit_simps [simp]: "lit [] = []" "lit (c # cs) = of_char c # lit cs"
  by (simp_all add: lit_def)

lemma ToString_simps [simp]:
  "ToString rt (JStr s) = s"
  "ToString rt (JObj s) = s"
  "ToString rt (JNum x) = num_to_string rt x"
  by (simp_all add: ToString_def)

lemma ToNumber_simps [simp]:
  "ToNumber rt JUndefined = NaN"
  "ToNumber rt JNull = Fin 0"
  "ToNumber rt (JNum x) = x"
  by (simp_all add: ToNumber_def)

lemma num_to_string_int:
  assumes "\<bar>i\<bar> < 2 ^ 53"
  shows "num_to_string rt (Fin (of_int i)) = int_string i"
proof -
  have "(of_int \<bar>i\<bar> :: rat) < of_int (2 ^ 53)"
    using assms by (simp only: of_int_less_iff)
  then have "\<bar>of_int i :: rat\<bar> < 2 ^ 53" by simp
  then show ?thesis by (simp add: num_to_string_def is_safe_int_def)
qed

lemma num_to_string_2: "num_to_string rt (Fin 2) = lit ''2''"
  using num_to_string_int [of 2 rt] by (simp add: int_string_def digits_small)

section \<open>The delta classifier\<close>

text \<open>
  C1 (as amended). \<^verbatim>\<open>updateDelta\<close>, fed as \<^verbatim>\<open>loadTotals\<close> feeds it, writes to the slot
  exactly the verdict of the specification, and the slot presents no other verdict: "no
  prior run" (neutral class, the message followed by the label) exactly when the previous
  value is absent, the delta is absent, or the run date is unknown (missing, \<^verbatim>\<open>null\<close> or
  empty); otherwise "increased" with the text \<open>+delta\<close> when the delta is positive,
  "decreased" with the signed delta when it is negative, and "unchanged" in the remaining
  case. This holds for every input but those in which the run date is known, neither the
  previous value nor the delta is \<^verbatim>\<open>null\<close>, and one of the two is a missing field; about
  those nothing is said.
\<close>

theorem updateDelta_classifies:
  assumes "\<not> truthy date \<or> previous = JNull \<or> delta = JNull
           \<or> (previous \<noteq> JUndefined \<and> delta \<noteq> JUndefined)"
  shows "\<exists>e'. updateDelta rt (js_or date JNull) (Some e) (number_unless_null rt previous) delta label
               = Some e'
             \<and> (\<forall>v. presents rt v delta label e'
                     \<longleftrightarrow> v = classify_spec rt previous delta (js_or date JNull))"
proof -
  let ?np = "number_unless_null rt previous = JNull \<or> delta = JNull \<or> js_or date JNull = JNull"
  have np: "?np \<longleftrightarrow> absent previous \<or> absent delta \<or> absent (js_or date JNull)"
    using assms js_or_null_defined [of date] js_or_null_eq [of date]
    by (auto simp: number_unless_null_def absent_def)
  show ?thesis
  proof (cases ?np)
    case True
    then have c: "classify_spec rt previous delta (js_or date JNull) = NoPriorRun"
      using np by (simp add: classify_spec_def)
    show ?thesis using True c
      by (auto simp: updateDelta_def Let_def presents_def has_only_class_after
          no_prior_not_no_change delta_classes_distinct split: verdict.splits)
  next
    case False
    then have a: "\<not> (absent previous \<or> absent delta \<or> absent (js_or date JNull))"
      using np by simp
    show ?thesis using False a
      by (auto simp: updateDelta_def Let_def presents_def has_only_class_after classify_spec_def
          no_change_not_no_prior gt_lt_exclusive delta_classes_distinct split: verdict.splits)
  qed
qed

theorem updateDelta_classifies_witness:
  "JNum (Fin 8) \<noteq> JUndefined \<and> JNum (Fin 2) \<noteq> JUndefined
   \<and> classify_spec example_host (JNum (Fin 8)) (JNum (Fin 2)) (js_or (JStr (lit ''2024-05-01'')) JNull)
       = Increased
   \<and> updateDelta example_host (js_or (JStr (lit ''2024-05-01'')) JNull)
        (Some \<lparr>el_text = [], el_classes = [lit ''delta'', delta_neutral]\<rparr>)
        (number_unless_null example_host (JNum (Fin 8))) (JNum (Fin 2)) label_visited
       = Some \<lparr>el_text = lit ''+2'' @ msg_compared @ lit ''2024-05-01)'',
               el_classes = [lit ''delta'', delta_positive]\<rparr>
   \<and> presents example_host Increased (JNum (Fin 2)) label_visited
        \<lparr>el_text = lit ''+2'' @ msg_compared @ lit ''2024-05-01)'',
         el_classes = [lit ''delta'', delta_positive]\<rparr>
   \<and> \<not> truthy JUndefined
   \<and> classify_spec example_host JUndefined JUndefined (js_or JUndefined JNull) = NoPriorRun
   \<and> updateDelta example_host (js_or JUndefined JNull)
        (Some \<lparr>el_text = [], el_classes = []\<rparr>)
        (number_unless_null example_host JUndefined) JUndefined label_visited
       = Some \<lparr>el_text = msg_no_prior_run @ label_visited, el_classes = [delta_neutral]\<rparr>"
  using updateDelta_classifies [of "JStr (lit ''2024-05-01'')" "JNum (Fin 8)" "JNum (Fin 2)"
      example_host "\<lparr>el_text = [], el_classes = [lit ''delta'', delta_neutral]\<rparr>" label_visited]
    updateDelta_classifies [of JUndefined JUndefined JUndefined
      example_host "\<lparr>el_text = [], el_classes = []\<rparr>" label_visited]
  by (simp add: updateDelta_def classify_spec_def absent_def js_or_def truthy_def
      number_unless_null_def js_gt0_def js_lt0_def num_gt0_def num_lt0_def num_to_string_2
      classList_add_def classList_remove_def delta_positive_def delta_negative_def
      delta_neutral_def)

text \<open>
  C1 as stated reads "absent" as covering a missing field too. A response with a known run
  date in which the previous value and the delta of a metric are both missing is "no prior
  run" by that reading, while the slot shows "no change": the missing previous value has
  become not-a-number, \<^verbatim>\<open>undefined === null\<close> is false, and \<^verbatim>\<open>undefined\<close> is neither
  above nor below zero.
\<close>

theorem updateDelta_missing_fields_counterexample:
  "classify_spec example_host JUndefined JUndefined (js_or (JStr (lit ''2024-05-01'')) JNull)
     = NoPriorRun
   \<and> updateDelta example_host (js_or (JStr (lit ''2024-05-01'')) JNull)
        (Some \<lparr>el_text = [], el_classes = []\<rparr>)
        (number_unless_null example_host JUndefined) JUndefined label_visited
       = Some \<lparr>el_text = msg_no_change @ lit ''2024-05-01)'', el_classes = [delta_neutral]\<rparr>
   \<and> \<not> presents example_host NoPriorRun JUndefined label_visited
        \<lparr>el_text = msg_no_change @ lit ''2024-05-01)'', el_classes = [delta_neutral]\<rparr>
   \<and> card_visited_delta
        (loadTotals_render example_host
           (example_totals\<lparr>prev_visited := JUndefined, delta_visited := JUndefined\<rparr>) blank_page)
       = Some \<lparr>el_text = msg_no_change @ lit ''2024-05-01)'', el_classes = [delta_neutral]\<rparr>"
  by (simp add: updateDelta_def classify_spec_def absent_def js_or_def truthy_def
      number_unless_null_def js_gt0_def js_lt0_def num_gt0_def num_lt0_def
      classList_add_def classList_remove_def presents_def no_change_not_no_prior
      loadTotals_render_def example_totals_def blank_page_def)

text \<open>
  The four tuples of the specification's test list, run through \<^verbatim>\<open>updateDelta\<close> with a
  known run date: \<open>(10, 8, 2)\<close> shows \<open>+2\<close>, \<open>(5, 5, 0)\<close> no change, \<open>(5, null, null)\<close> no
  prior run and \<open>(3, 6, -3)\<close> shows \<open>-3\<close>.
\<close>

lemma num_to_string_minus_3: "num_to_string rt (Fin (- 3)) = lit ''-3''"
  using num_to_string_int [of "- 3" rt] by (simp add: int_string_def digits_small)

lemma updateDelta_examples:
  "updateDelta rt (JStr d) (Some \<lparr>el_text = [], el_classes = []\<rparr>) (JNum (Fin 8)) (JNum (Fin 2)) l
     = Some \<lparr>el_text = lit ''+2'' @ msg_compared @ d @ lit '')'', el_classes = [delta_positive]\<rparr>"
  "updateDelta rt (JStr d) (Some \<lparr>el_text = [], el_classes = []\<rparr>) (JNum (Fin 5)) (JNum (Fin 0)) l
     = Some \<lparr>el_text = msg_no_change @ d @ lit '')'', el_classes = [delta_neutral]\<rparr>"
  "updateDelta rt (JStr d) (Some \<lparr>el_text = [], el_classes = []\<rparr>) JNull JNull l
     = Some \<lparr>el_text = msg_no_prior_run @ l, el_classes = [delta_neutral]\<rparr>"
  "updateDelta rt (JStr d) (Some \<lparr>el_text = [], el_classes = []\<rparr>) (JNum (Fin 6)) (JNum (Fin (- 3))) l
     = Some \<lparr>el_text = lit ''-3'' @ msg_compared @ d @ lit '')'', el_classes = [delta_negative]\<rparr>"
  by (simp_all add: updateDelta_def js_gt0_def js_lt0_def num_gt0_def num_lt0_def
      classList_add_def classList_remove_def num_to_string_2 num_to_string_minus_3)

section \<open>The table renderer\<close>

lemma get_prop_missing:
  "map_of r c = None \<Longrightarrow> rt_ObjectPrototype rt c = None \<Longrightarrow> get_prop rt r c = JUndefined"
  by (simp add: get_prop_def)

lemma cell_html_spec:
  assumes "c \<notin> fst ` set r \<longrightarrow> rt_ObjectPrototype rt c = None"
  shows "cell_html rt (get_prop rt r c) = lit ''<td>'' @ spec_cell rt r c @ lit ''</td>''"
proof (cases "map_of r c")
  case None
  then have "c \<notin> fst ` set r" by (simp add: map_of_eq_None_iff)
  then have "get_prop rt r c = JUndefined" using None assms by (simp add: get_prop_missing)
  then show ?thesis using None by (simp add: cell_html_def spec_cell_def)
next
  case (Some v)
  then have "get_prop rt r c = v" by (simp add: get_prop_def)
  then show ?thesis using Some
    by (simp add: cell_html_def spec_cell_def absent_def)
qed

lemma row_html_spec:
  assumes "\<forall>c \<in> set cols. c \<notin> fst ` set r \<longrightarrow> rt_ObjectPrototype rt c = None"
  shows "row_html rt cols r =
     lit ''<tr>'' @ concat (map (\<lambda>t. lit ''<td>'' @ t @ lit ''</td>'') (map (spec_cell rt r) cols))
     @ lit ''</tr>''"
proof -
  have "cell_html rt (get_prop rt r c) = lit ''<td>'' @ spec_cell rt r c @ lit ''</td>''"
    if "c \<in> set cols" for c
    using that assms by (intro cell_html_spec) blast
  then have "map (\<lambda>c. cell_html rt (get_prop rt r c)) cols
        = map (\<lambda>c. lit ''<td>'' @ spec_cell rt r c @ lit ''</td>'') cols"
    by (rule map_ext [rule_format]) 
  then show ?thesis unfolding row_html_def by (simp only: map_map comp_def)
qed

lemma js_in_own:
  assumes "c \<notin> fst ` set first \<longrightarrow> rt_ObjectPrototype rt c = None"
  shows "js_in rt c first \<longleftrightarrow> c \<in> fst ` set first"
  using assms by (auto simp: js_in_def has_key_def Object_keys_def)

lemma table_columns_spec:
  assumes "\<forall>c \<in> set (case preferredOrder of None \<Rightarrow> [] | Some po \<Rightarrow> po).
             c \<notin> fst ` set first \<longrightarrow> rt_ObjectPrototype rt c = None"
  shows "table_columns rt first preferredOrder
     = spec_columns first (case preferredOrder of None \<Rightarrow> [] | Some po \<Rightarrow> po)"
proof (cases preferredOrder)
  case None
  then show ?thesis
    by (simp add: table_columns_def spec_columns_def Object_keys_def)
next
  case (Some po)
  have "js_in rt c first \<longleftrightarrow> c \<in> fst ` set first" if "c \<in> set po" for c
    using that assms Some by (intro js_in_own) simp
  then have f: "filter (\<lambda>c. js_in rt c first) po = filter (\<lambda>c. c \<in> fst ` set first) po"
    by (rule filter_cong [OF refl])
  show ?thesis
  proof (cases "po = []")
    case True
    then show ?thesis using Some by (simp add: table_columns_def spec_columns_def Object_keys_def)
  next
    case False
    then show ?thesis using Some
      unfolding table_columns_def spec_columns_def Object_keys_def
      by (simp add: f Let_def)
  qed
qed

lemma get_prop_cong: "map_of r c = map_of r' c \<Longrightarrow> get_prop rt r c = get_prop rt r' c"
  by (simp add: get_prop_def)

lemma row_html_cong:
  assumes "\<forall>c \<in> set cols. map_of r c = map_of r' c"
  shows "row_html rt cols r = row_html rt cols r'"
proof -
  have "cell_html rt (get_prop rt r c) = cell_html rt (get_prop rt r' c)" if "c \<in> set cols" for c
    using that assms get_prop_cong [of r c r' rt] by simp
  then have "map (\<lambda>c. cell_html rt (get_prop rt r c)) cols
        = map (\<lambda>c. cell_html rt (get_prop rt r' c)) cols"
    by (rule map_ext [rule_format])
  then show ?thesis unfolding row_html_def by (simp only:)
qed

lemma rows_html_cong:
  assumes "list_all2 (\<lambda>r r'. \<forall>c \<in> set cols. map_of r c = map_of r' c) rest rest'"
  shows "map (row_html rt cols) rest' = map (row_html rt cols) rest"
  using assms
proof (induction rest rest' rule: list_all2_induct)
  case Nil
  then show ?case by simp
next
  case (Cons r rs r' rs')
  have "row_html rt cols r = row_html rt cols r'"
    using Cons.hyps(1) by (rule row_html_cong)
  then show ?case using Cons.IH by (simp only: list.map)
qed

lemma buildTableHtml_rest_cong:
  assumes "list_all2 (\<lambda>r r'. \<forall>c \<in> set (table_columns rt first preferredOrder).
                        map_of r c = map_of r' c) rest rest'"
  shows "buildTableHtml rt (Some (first # rest')) preferredOrder title
         = buildTableHtml rt (Some (first # rest)) preferredOrder title"
proof -
  have "map (row_html rt (table_columns rt first preferredOrder)) (first # rest')
        = map (row_html rt (table_columns rt first preferredOrder)) (first # rest)"
    using rows_html_cong [OF assms, of rt] by (simp only: list.map)
  then show ?thesis
    unfolding buildTableHtml_def by (simp only: list.case option.case Let_def)
qed

lemma num_to_string_digit: "n < 10 \<Longrightarrow> num_to_string rt (Fin (of_nat n)) = [48 + n]"
  using num_to_string_int [of "int n" rt] by (simp add: int_string_def digits_small)

lemma example_host_inherits:
  "rt_ObjectPrototype example_host (lit ''a'') = None"
  "rt_ObjectPrototype example_host (lit ''b'') = None"
  "rt_ObjectPrototype example_host (lit ''constructor'')
     = Some (JObj (lit ''function Object() { [native code] }''))"
  "rt_ObjectPrototype example_host (lit ''toString'')
     = Some (JObj (lit ''function toString() { [native code] }''))"
  by (simp_all add: example_host_def standard_ObjectPrototype_def native_function_def)

text \<open>
  C4 (as amended). Take a non-empty row sequence in which no name of the preferred order
  that the first row lacks, and no chosen column that some row lacks, is the name of a
  property inherited from \<^verbatim>\<open>Object.prototype\<close>. For it \<^verbatim>\<open>buildTableHtml\<close> produces the
  markup of the table whose columns are the preferred order filtered to the keys present in
  the first row, or the first row's own keys in their order when the filter leaves none,
  and whose cells are, row by row against these fixed columns, the empty string for a
  missing, \<^verbatim>\<open>null\<close> or absent value and the string form of every other value. Rows after
  the first are not inspected beyond the columns: replacing them by rows that agree on
  the columns (whatever further keys they have) gives the same markup. The witness is the
  example of the specification: rows \<open>[{a:1,b:2},{a:3}]\<close> with preferred order \<open>[b,a]\<close>
  give two data rows, the \<open>b\<close> cell of the second one empty.
\<close>

theorem buildTableHtml_columns_and_cells:
  assumes "rows = first # rest"
    and "\<forall>c \<in> set (case preferredOrder of None \<Rightarrow> [] | Some po \<Rightarrow> po).
           c \<notin> fst ` set first \<longrightarrow> rt_ObjectPrototype rt c = None"
    and "\<forall>r \<in> set rows.
           \<forall>c \<in> set (spec_columns first (case preferredOrder of None \<Rightarrow> [] | Some po \<Rightarrow> po)).
             c \<notin> fst ` set r \<longrightarrow> rt_ObjectPrototype rt c = None"
  shows "buildTableHtml rt (Some rows) preferredOrder title
           = table_markup title
               (spec_columns first (case preferredOrder of None \<Rightarrow> [] | Some po \<Rightarrow> po))
               (map (\<lambda>r. map (spec_cell rt r)
                            (spec_columns first (case preferredOrder of None \<Rightarrow> [] | Some po \<Rightarrow> po)))
                  rows)
         \<and> (\<forall>rest'. list_all2 (\<lambda>r r'. \<forall>c \<in> set (table_columns rt first preferredOrder).
                                      map_of r c = map_of r' c) rest rest'
               \<longrightarrow> buildTableHtml rt (Some (first # rest')) preferredOrder title
                   = buildTableHtml rt (Some rows) preferredOrder title)"
proof -
  let ?cols = "spec_columns first (case preferredOrder of None \<Rightarrow> [] | Some po \<Rightarrow> po)"
  let ?tr = "\<lambda>cells. lit ''<tr>'' @ concat (map (\<lambda>t. lit ''<td>'' @ t @ lit ''</td>'') cells)
                     @ lit ''</tr>''"
  have cols: "table_columns rt first preferredOrder = ?cols"
    using assms(2) by (rule table_columns_spec)
  have "row_html rt ?cols r = ?tr (map (spec_cell rt r) ?cols)" if "r \<in> set rows" for r
  proof (rule row_html_spec)
    show "\<forall>c \<in> set ?cols. c \<notin> fst ` set r \<longrightarrow> rt_ObjectPrototype rt c = None"
      using that assms(3) by blast
  qed
  then have "map (row_html rt ?cols) rows = map (\<lambda>r. ?tr (map (spec_cell rt r) ?cols)) rows"
    by (rule map_ext [rule_format])
  then have body: "map (row_html rt ?cols) rows = map ?tr (map (\<lambda>r. map (spec_cell rt r) ?cols) rows)"
    by (simp only: map_map comp_def)
  have "buildTableHtml rt (Some rows) preferredOrder title
        = (if str_truthy title then html_title_open @ the title @ lit ''</div>'' else [])
          @ html_table_open
          @ concat (map (\<lambda>c. lit ''<th>'' @ c @ lit ''</th>'') ?cols)
          @ lit ''</tr></thead><tbody>''
          @ concat (map (row_html rt ?cols) rows)
          @ lit ''</tbody></table></div>''"
    unfolding assms(1) buildTableHtml_def by (simp only: list.case option.case Let_def cols)
  also have "\<dots> = table_markup title ?cols (map (\<lambda>r. map (spec_cell rt r) ?cols) rows)"
    unfolding body table_markup_def
    by (cases title) (simp_all add: str_truthy_def)
  finally have eq: "buildTableHtml rt (Some rows) preferredOrder title
        = table_markup title ?cols (map (\<lambda>r. map (spec_cell rt r) ?cols) rows)" .
  have ext: "buildTableHtml rt (Some (first # rest')) preferredOrder title
             = buildTableHtml rt (Some rows) preferredOrder title"
    if "list_all2 (\<lambda>r r'. \<forall>c \<in> set (table_columns rt first preferredOrder).
                        map_of r c = map_of r' c) rest rest'" for rest'
    unfolding assms(1) using that by (rule buildTableHtml_rest_cong)
  show ?thesis using eq ext by blast
qed

theorem buildTableHtml_columns_and_cells_witness:
  "[[(lit ''a'', JNum (Fin 1)), (lit ''b'', JNum (Fin 2))], [(lit ''a'', JNum (Fin 3))]]
     = [(lit ''a'', JNum (Fin 1)), (lit ''b'', JNum (Fin 2))] # [[(lit ''a'', JNum (Fin 3))]]
   \<and> rt_ObjectPrototype example_host (lit ''a'') = None
   \<and> rt_ObjectPrototype example_host (lit ''b'') = None
   \<and> buildTableHtml example_host
        (Some [[(lit ''a'', JNum (Fin 1)), (lit ''b'', JNum (Fin 2))], [(lit ''a'', JNum (Fin 3))]])
        (Some [lit ''b'', lit ''a'']) None
       = table_markup None [lit ''b'', lit ''a''] [[lit ''2'', lit ''1''], [[], lit ''3'']]
   \<and> buildTableHtml example_host
        (Some [[(lit ''a'', JNum (Fin 1)), (lit ''b'', JNum (Fin 2))],
               [(lit ''a'', JNum (Fin 3)), (lit ''z'', JStr (lit ''extra''))]])
        (Some [lit ''b'', lit ''a'']) None
       = table_markup None [lit ''b'', lit ''a''] [[lit ''2'', lit ''1''], [[], lit ''3'']]"
proof -
  let ?r1 = "[(lit ''a'', JNum (Fin 1)), (lit ''b'', JNum (Fin 2))]"
  let ?r2 = "[(lit ''a'', JNum (Fin 3))]"
  let ?r2' = "[(lit ''a'', JNum (Fin 3)), (lit ''z'', JStr (lit ''extra''))]"
  let ?po = "Some [lit ''b'', lit ''a'']"
  have c: "spec_columns ?r1 [lit ''b'', lit ''a''] = [lit ''b'', lit ''a'']"
    by (simp add: spec_columns_def)
  have h1: "\<forall>c \<in> set (case ?po of None \<Rightarrow> [] | Some po \<Rightarrow> po).
              c \<notin> fst ` set ?r1 \<longrightarrow> rt_ObjectPrototype example_host c = None"
    by simp
  have h2: "\<forall>r \<in> set [?r1, ?r2].
              \<forall>c \<in> set (spec_columns ?r1 (case ?po of None \<Rightarrow> [] | Some po \<Rightarrow> po)).
                c \<notin> fst ` set r \<longrightarrow> rt_ObjectPrototype example_host c = None"
    using example_host_inherits(1,2) c by simp
  note t = buildTableHtml_columns_and_cells [of "[?r1, ?r2]" ?r1 "[?r2]" ?po example_host None,
      OF refl h1 h2]
  have tc: "table_columns example_host ?r1 ?po = [lit ''b'', lit ''a'']"
    using table_columns_spec [of ?po ?r1 example_host, OF h1] c by simp
  have g: "map (\<lambda>r. map (spec_cell example_host r) [lit ''b'', lit ''a'']) [?r1, ?r2]
           = [[lit ''2'', lit ''1''], [[], lit ''3'']]"
    using num_to_string_digit [of 1 example_host] num_to_string_digit [of 2 example_host]
      num_to_string_digit [of 3 example_host]
    by (simp add: spec_cell_def absent_def)
  have e1: "buildTableHtml example_host (Some [?r1, ?r2]) ?po None
            = table_markup None [lit ''b'', lit ''a''] [[lit ''2'', lit ''1''], [[], lit ''3'']]"
    using t g c by simp
  have "list_all2 (\<lambda>r r'. \<forall>c \<in> set (table_columns example_host ?r1 ?po).
                      map_of r c = map_of r' c) [?r2] [?r2']"
    using tc by simp
  then have e2: "buildTableHtml example_host (Some [?r1, ?r2']) ?po None
            = buildTableHtml example_host (Some [?r1, ?r2]) ?po None"
    using t by blast
  show ?thesis using e1 e2 example_host_inherits(1,2) by simp
qed

text \<open>
  C4 as stated holds of every row sequence and every preferred order. The renderer tests
  \<^verbatim>\<open>c in first\<close> and reads \<^verbatim>\<open>row[c]\<close>, and both see what a row inherits: with the
  preferred order \<open>[constructor, a]\<close> the row \<open>{a:1}\<close> gets a \<open>constructor\<close> column, which is
  no key of it, and in the rows \<open>[{toString:'x'}, {}]\<close> the cell of the second row, which
  lacks the column, shows the inherited function instead of being empty.
\<close>

theorem buildTableHtml_inherited_names_counterexample:
  "spec_columns [(lit ''a'', JNum (Fin 1))] [lit ''constructor'', lit ''a''] = [lit ''a'']
   \<and> table_columns example_host [(lit ''a'', JNum (Fin 1))] (Some [lit ''constructor'', lit ''a''])
       = [lit ''constructor'', lit ''a'']
   \<and> buildTableHtml example_host (Some [[(lit ''a'', JNum (Fin 1))]])
        (Some [lit ''constructor'', lit ''a'']) None
       = table_markup None [lit ''constructor'', lit ''a'']
           [[lit ''function Object() { [native code] }'', lit ''1'']]
   \<and> buildTableHtml example_host (Some [[(lit ''a'', JNum (Fin 1))]])
        (Some [lit ''constructor'', lit ''a'']) None
       \<noteq> table_markup None [lit ''a''] [[lit ''1'']]
   \<and> spec_cell example_host [] (lit ''toString'') = []
   \<and> buildTableHtml example_host (Some [[(lit ''toString'', JStr (lit ''x''))], []]) None None
       = table_markup None [lit ''toString'']
           [[lit ''x''], [lit ''function toString() { [native code] }'']]
   \<and> buildTableHtml example_host (Some [[(lit ''toString'', JStr (lit ''x''))], []]) None None
       \<noteq> table_markup None [lit ''toString''] [[lit ''x''], [[]]]"
  using num_to_string_digit [of 1 example_host] example_host_inherits
  by (simp add: buildTableHtml_def table_columns_def js_in_def has_key_def Object_keys_def
      row_html_def cell_html_def get_prop_def spec_columns_def
      spec_cell_def table_markup_def str_truthy_def html_table_open_def)

text \<open>
  C8. For the empty row sequence (and for a missing one) \<^verbatim>\<open>buildTableHtml\<close> returns the
  "no data" placeholder: a single \<open>div\<close> element (one opening and one closing tag), with no
  table row and no table in it.
\<close>

theorem buildTableHtml_empty:
  "buildTableHtml rt (Some []) preferredOrder title = html_table_empty
   \<and> buildTableHtml rt None preferredOrder title = html_table_empty
   \<and> starts_with html_table_empty (lit ''<div '')
   \<and> count_list html_table_empty 60 = 2
   \<and> \<not> str_includes html_table_empty (lit ''<tr'')
   \<and> \<not> str_includes html_table_empty (lit ''<table'')"
  by (simp add: buildTableHtml_def html_table_empty_def)

section \<open>Scope resolution\<close>

lemma getBodySector_truthy: "str_truthy (getBodySector st) \<longleftrightarrow> getBodySector st \<noteq> None"
  by (auto simp: getBodySector_def str_truthy_def split: option.splits)

lemma selected_body: "selected (body_data_sector st) = getBodySector st"
  by (auto simp: getBodySector_def selected_def split: option.splits)

lemma selected_truthy: "str_truthy x \<Longrightarrow> selected x = Some (the x)"
  by (auto simp: str_truthy_def selected_def split: option.splits)

lemma selected_falsy: "\<not> str_truthy x \<Longrightarrow> selected x = None"
  by (auto simp: str_truthy_def selected_def split: option.splits)

lemma resolveScope_cases:
  "resolveScope st =
     (if str_truthy (getBodySector st) then BySector (the (getBodySector st))
      else if str_truthy (municipality (currentFilter st))
        then ByMunicipality (the (municipality (currentFilter st)))
      else if str_truthy (sector (currentFilter st))
        then BySector (the (sector (currentFilter st)))
      else AllData)"
proof -
  have b: "selected (body_data_sector st) =
      (if str_truthy (getBodySector st) then Some (the (getBodySector st)) else None)"
    by (auto simp: selected_body getBodySector_truthy)
  show ?thesis
    unfolding resolveScope_def b
    by (simp add: selected_truthy selected_falsy)
qed

lemma loadTotals_url_scope: "loadTotals_url rt st = totals_url_of_scope rt (resolveScope st)"
  by (simp add: loadTotals_url_def totals_url_of_scope_def resolveScope_cases getSectorKey_def
      getMunicipalityFilter_def Let_def del: lit_simps)

lemma loadChart_query_scope: "loadChart_query rt st = chart_query_of_scope rt (resolveScope st)"
  by (simp add: loadChart_query_def chart_query_of_scope_def resolveScope_cases getSectorKey_def
      getMunicipalityFilter_def Let_def del: lit_simps)

lemma getBodySector_filter [simp]: "getBodySector (st\<lparr>currentFilter := f\<rparr>) = getBodySector st"
  by (simp add: getBodySector_def)

lemma resolveScope_bound:
  assumes "getBodySector st = Some k"
  shows "resolveScope (st\<lparr>currentFilter := f\<rparr>) = BySector k"
proof -
  have "str_truthy (Some k)" using assms getBodySector_truthy [of st] by simp
  then show ?thesis using assms by (simp add: resolveScope_cases)
qed

lemma resolveScope_unbound:
  "getBodySector st = None \<Longrightarrow>
   resolveScope st =
     (case selected (municipality (currentFilter st)) of
        Some name \<Rightarrow> ByMunicipality name
      | None \<Rightarrow>
          (case selected (sector (currentFilter st)) of
             Some key \<Rightarrow> BySector key
           | None \<Rightarrow> AllData))"
  by (simp add: resolveScope_def selected_body)

lemma details_no_request:
  assumes "str_truthy (getBodySector st) \<or> \<not> str_truthy (getMunicipalityFilter st)"
  shows "loadMunicipalityDetails rt fetch st = loadMunicipalityDetails rt fetch' st"
  using assms by (auto simp: loadMunicipalityDetails_def Let_def)

lemma scope_not_municipality:
  assumes "\<forall>m. resolveScope st \<noteq> ByMunicipality m"
  shows "str_truthy (getBodySector st) \<or> \<not> str_truthy (getMunicipalityFilter st)"
  using assms
  by (auto simp: resolveScope_cases getMunicipalityFilter_def Let_def split: if_splits)

lemma scope_municipality:
  assumes "resolveScope st = ByMunicipality m"
  shows "\<not> str_truthy (getBodySector st)" and "str_truthy (getMunicipalityFilter st)"
    and "the (getMunicipalityFilter st) = m"
  using assms
  by (auto simp: resolveScope_cases getMunicipalityFilter_def Let_def split: if_splits)

lemma details_scope:
  assumes "details_alike rt (resolveScope st) fetch fetch'"
  shows "loadMunicipalityDetails rt fetch st = loadMunicipalityDetails rt fetch' st"
proof (cases "\<exists>m. resolveScope st = ByMunicipality m")
  case False
  then show ?thesis using scope_not_municipality details_no_request by blast
next
  case True
  then obtain m where m: "resolveScope st = ByMunicipality m" by blast
  show ?thesis
  proof (cases "rt_encodeURIComponent rt m")
    case None
    then show ?thesis
      using scope_municipality [OF m]
      by (simp add: loadMunicipalityDetails_def Let_def)
  next
    case (Some e)
    then have "fetch (lit ''/api/municipality/'' @ e @ lit ''/details'')
             = fetch' (lit ''/api/municipality/'' @ e @ lit ''/details'')"
      using assms m by (simp add: details_alike_def del: lit_simps)
    then show ?thesis
      using scope_municipality [OF m] Some
      by (simp add: loadMunicipalityDetails_def Let_def del: lit_simps)
  qed
qed

lemma loadTotals_url_cong:
  assumes "body_data_sector a = body_data_sector b" and "currentFilter a = currentFilter b"
  shows "loadTotals_url rt a = loadTotals_url rt b"
  unfolding loadTotals_url_scope resolveScope_def assms ..

lemma loadTotals_url_status [simp]: "loadTotals_url rt (st\<lparr>status := x\<rparr>) = loadTotals_url rt st"
  by (rule loadTotals_url_cong) simp_all

lemma details_bound:
  assumes "getBodySector st = Some boundKey"
  shows "loadMunicipalityDetails rt fetch (st\<lparr>currentFilter := f\<rparr>)
         = (if muni_summary_table st = None \<or> muni_raw_table st = None
            then (st\<lparr>currentFilter := f\<rparr>, Returned)
            else (st\<lparr>currentFilter := f, muni_summary_table := Some [],
                      muni_raw_table := Some []\<rparr>, Returned))"
proof -
  have "str_truthy (getBodySector (st\<lparr>currentFilter := f\<rparr>))"
    using assms getBodySector_truthy [of st] by simp
  then show ?thesis by (simp add: loadMunicipalityDetails_def)
qed

lemma details_unscoped:
  assumes "getBodySector st = None" and "\<forall>m. resolveScope st \<noteq> ByMunicipality m"
    and "muni_summary_table st \<noteq> None" and "muni_raw_table st \<noteq> None"
  shows "loadMunicipalityDetails rt fetch st
         = (st\<lparr>muni_summary_table := Some html_choose_municipality,
                muni_raw_table := Some []\<rparr>, Returned)"
proof -
  have b: "\<not> str_truthy (getBodySector st)" using assms(1) by (simp add: str_truthy_def)
  then have "\<not> str_truthy (getMunicipalityFilter st)"
    using scope_not_municipality [OF assms(2)] by blast
  then show ?thesis using b assms(3,4) by (auto simp: loadMunicipalityDetails_def Let_def)
qed

lemma details_municipality:
  assumes "resolveScope st = ByMunicipality name" and "rt_encodeURIComponent rt name = Some e"
    and "muni_summary_table st \<noteq> None" and "muni_raw_table st \<noteq> None"
  shows "fetch (lit ''/api/municipality/'' @ e @ lit ''/details'') = HttpOk (JsonObject data)
         \<Longrightarrow> loadMunicipalityDetails rt fetch st
             = (details_render rt data
                  (st\<lparr>muni_summary_table := Some html_details_loading,
                      muni_raw_table := Some []\<rparr>), Returned)"
    and "fetch (lit ''/api/municipality/'' @ e @ lit ''/details'') = Rejected
         \<Longrightarrow> loadMunicipalityDetails rt fetch st
             = (st\<lparr>muni_summary_table := Some html_details_connection_error,
                    muni_raw_table := Some []\<rparr>, Returned)"
  using scope_municipality [OF assms(1)] assms(2,3,4)
  by (auto simp: loadMunicipalityDetails_def Let_def simp del: lit_simps)

lemma loadTotals_ok:
  assumes "loadTotals_url rt st = Some u" and "fetch u = HttpOk (JsonObject d)"
  shows "loadTotals rt fetch st
         = (loadTotals_render rt d (st\<lparr>status := set_text msg_loading (status st)\<rparr>), Returned)"
  using assms by (simp add: loadTotals_def Let_def)

lemma loadChart_ok:
  assumes "canvas_present st" and "loadChart_query rt st = Some q"
    and "fetch (lit ''/api/chart-data/compare'' @ q) = HttpOk (JsonObject d)"
  shows "loadChart rt fetch st
         = ((destroy_chart st)\<lparr>visitsChart := Some (chart_of d),
                                canvas_shows := Some (chart_of d)\<rparr>, Returned)"
  using assms by (simp add: loadChart_def del: lit_simps)

text \<open>
  C2. Every loader works with the scope that \<^verbatim>\<open>resolveScope\<close> gives for the page: the
  totals loader requests the totals endpoint of that scope and the chart loader the chart
  data of that scope; the details loader makes no request but the one for the municipality
  of the scope, so its effect is the same under any two servers that answer that request
  alike. On a page bound to a sector the scope is that sector whatever the filter holds: the
  municipality selection is never consulted. On an unbound page the scope is the selected
  municipality if there is one, else the selected sector if there is one, else all data.

  Each loader acts on the answer to the request of the scope. When the server answers the
  totals request of the scope with an object, the totals loader renders that object; when
  it answers the chart request of the scope with an object, the chart loader replaces the
  chart by the one drawn from that object. On a page bound to a sector the details loader
  only clears its two containers (or does nothing when one is missing), whatever the
  filter holds and whatever the server would answer. On an unbound page whose scope is not
  a municipality it shows the placeholder asking to choose a municipality. When the scope
  is the municipality \<open>m\<close>, it requests \<^verbatim>\<open>/api/municipality/<m, encoded>/details\<close>: an
  object in the answer is rendered into the two containers, and a rejected request leaves
  the connection error message.
\<close>

theorem scope_resolution:
  "loadTotals_url rt st = totals_url_of_scope rt (resolveScope st)
   \<and> loadChart_query rt st = chart_query_of_scope rt (resolveScope st)
   \<and> (details_alike rt (resolveScope st) fetch fetch'
        \<longrightarrow> loadMunicipalityDetails rt fetch st = loadMunicipalityDetails rt fetch' st)
   \<and> (getBodySector st = Some boundKey
        \<longrightarrow> resolveScope (st\<lparr>currentFilter := f\<rparr>) = BySector boundKey)
   \<and> (getBodySector st = None
        \<longrightarrow> resolveScope st =
            (case selected (municipality (currentFilter st)) of
               Some name \<Rightarrow> ByMunicipality name
             | None \<Rightarrow>
                 (case selected (sector (currentFilter st)) of
                    Some key \<Rightarrow> BySector key
                  | None \<Rightarrow> AllData)))
   \<and> (loadTotals_url rt st = Some u \<and> fetch_totals u = HttpOk (JsonObject totals)
        \<longrightarrow> loadTotals rt fetch_totals st
            = (loadTotals_render rt totals (st\<lparr>status := set_text msg_loading (status st)\<rparr>),
               Returned))
   \<and> (canvas_present st \<and> loadChart_query rt st = Some q
        \<and> fetch_chart (lit ''/api/chart-data/compare'' @ q) = HttpOk (JsonObject chart_data)
        \<longrightarrow> loadChart rt fetch_chart st
            = ((destroy_chart st)\<lparr>visitsChart := Some (chart_of chart_data),
                                   canvas_shows := Some (chart_of chart_data)\<rparr>, Returned))
   \<and> (getBodySector st = Some boundKey
        \<longrightarrow> loadMunicipalityDetails rt fetch (st\<lparr>currentFilter := f\<rparr>)
            = (if muni_summary_table st = None \<or> muni_raw_table st = None
               then (st\<lparr>currentFilter := f\<rparr>, Returned)
               else (st\<lparr>currentFilter := f, muni_summary_table := Some [],
                         muni_raw_table := Some []\<rparr>, Returned)))
   \<and> (getBodySector st = None \<and> (\<forall>m. resolveScope st \<noteq> ByMunicipality m)
        \<and> muni_summary_table st \<noteq> None \<and> muni_raw_table st \<noteq> None
        \<longrightarrow> loadMunicipalityDetails rt fetch st
            = (st\<lparr>muni_summary_table := Some html_choose_municipality,
                   muni_raw_table := Some []\<rparr>, Returned))
   \<and> (resolveScope st = ByMunicipality m \<and> rt_encodeURIComponent rt m = Some e
        \<and> muni_summary_table st \<noteq> None \<and> muni_raw_table st \<noteq> None
        \<longrightarrow> (fetch (lit ''/api/municipality/'' @ e @ lit ''/details'') = HttpOk (JsonObject details)
             \<longrightarrow> loadMunicipalityDetails rt fetch st
                 = (details_render rt details
                      (st\<lparr>muni_summary_table := Some html_details_loading,
                          muni_raw_table := Some []\<rparr>), Returned))
          \<and> (fetch (lit ''/api/municipality/'' @ e @ lit ''/details'') = Rejected
             \<longrightarrow> loadMunicipalityDetails rt fetch st
                 = (st\<lparr>muni_summary_table := Some html_details_connection_error,
                        muni_raw_table := Some []\<rparr>, Returned)))"
proof -
  have 1: "loadTotals_url rt st = totals_url_of_scope rt (resolveScope st)"
    by (rule loadTotals_url_scope)
  have 2: "loadChart_query rt st = chart_query_of_scope rt (resolveScope st)"
    by (rule loadChart_query_scope)
  have 3: "details_alike rt (resolveScope st) fetch fetch'
        \<longrightarrow> loadMunicipalityDetails rt fetch st = loadMunicipalityDetails rt fetch' st"
    using details_scope by blast
  have 4: "getBodySector st = Some boundKey
        \<longrightarrow> resolveScope (st\<lparr>currentFilter := f\<rparr>) = BySector boundKey"
    using resolveScope_bound by blast
  have 5: "getBodySector st = None
        \<longrightarrow> resolveScope st =
            (case selected (municipality (currentFilter st)) of
               Some name \<Rightarrow> ByMunicipality name
             | None \<Rightarrow>
                 (case selected (sector (currentFilter st)) of
                    Some key \<Rightarrow> BySector key
                  | None \<Rightarrow> AllData))"
    using resolveScope_unbound by blast
  have 6: "loadTotals_url rt st = Some u \<and> fetch_totals u = HttpOk (JsonObject totals)
        \<longrightarrow> loadTotals rt fetch_totals st
            = (loadTotals_render rt totals (st\<lparr>status := set_text msg_loading (status st)\<rparr>),
               Returned)"
    using loadTotals_ok by blast
  have 7: "canvas_present st \<and> loadChart_query rt st = Some q
        \<and> fetch_chart (lit ''/api/chart-data/compare'' @ q) = HttpOk (JsonObject chart_data)
        \<longrightarrow> loadChart rt fetch_chart st
            = ((destroy_chart st)\<lparr>visitsChart := Some (chart_of chart_data),
                                   canvas_shows := Some (chart_of chart_data)\<rparr>, Returned)"
    using loadChart_ok by blast
  have 8: "getBodySector st = Some boundKey
        \<longrightarrow> loadMunicipalityDetails rt fetch (st\<lparr>currentFilter := f\<rparr>)
            = (if muni_summary_table st = None \<or> muni_raw_table st = None
               then (st\<lparr>currentFilter := f\<rparr>, Returned)
               else (st\<lparr>currentFilter := f, muni_summary_table := Some [],
                         muni_raw_table := Some []\<rparr>, Returned))"
    using details_bound by blast
  have 9: "getBodySector st = None \<and> (\<forall>m. resolveScope st \<noteq> ByMunicipality m)
        \<and> muni_summary_table st \<noteq> None \<and> muni_raw_table st \<noteq> None
        \<longrightarrow> loadMunicipalityDetails rt fetch st
            = (st\<lparr>muni_summary_table := Some html_choose_municipality,
                   muni_raw_table := Some []\<rparr>, Returned)"
    using details_unscoped by blast
  have 10: "resolveScope st = ByMunicipality m \<and> rt_encodeURIComponent rt m = Some e
        \<and> muni_summary_table st \<noteq> None \<and> muni_raw_table st \<noteq> None
        \<longrightarrow> (fetch (lit ''/api/municipality/'' @ e @ lit ''/details'') = HttpOk (JsonObject details)
             \<longrightarrow> loadMunicipalityDetails rt fetch st
                 = (details_render rt details
                      (st\<lparr>muni_summary_table := Some html_details_loading,
                          muni_raw_table := Some []\<rparr>), Returned))
          \<and> (fetch (lit ''/api/municipality/'' @ e @ lit ''/details'') = Rejected
             \<longrightarrow> loadMunicipalityDetails rt fetch st
                 = (st\<lparr>muni_summary_table := Some html_details_connection_error,
                        muni_raw_table := Some []\<rparr>, Returned))"
    using details_municipality by blast
  show ?thesis
    using 1 2 3 4 5 6 7 8 9 10 by (intro conjI)
qed

theorem scope_resolution_witness:
  "getBodySector (blank_page\<lparr>body_data_sector := Some (lit ''abha'')\<rparr>) = Some (lit ''abha'')
   \<and> resolveScope (blank_page\<lparr>body_data_sector := Some (lit ''abha''),
                      currentFilter := \<lparr>sector = Some (lit ''khamis''), municipality = Some (lit ''X'')\<rparr>\<rparr>)
       = BySector (lit ''abha'')
   \<and> getBodySector (blank_page\<lparr>currentFilter :=
                        \<lparr>sector = Some (lit ''khamis''), municipality = Some (lit ''X'')\<rparr>\<rparr>) = None
   \<and> resolveScope (blank_page\<lparr>currentFilter :=
                        \<lparr>sector = Some (lit ''khamis''), municipality = Some (lit ''X'')\<rparr>\<rparr>)
       = ByMunicipality (lit ''X'')
   \<and> loadTotals_url example_host
        (blank_page\<lparr>currentFilter :=
                        \<lparr>sector = Some (lit ''khamis''), municipality = Some (lit ''X'')\<rparr>\<rparr>)
       = Some (lit ''/api/totals/municipality/X'')
   \<and> loadChart_query example_host
        (blank_page\<lparr>currentFilter :=
                        \<lparr>sector = Some (lit ''khamis''), municipality = Some (lit ''X'')\<rparr>\<rparr>)
       = Some (lit ''?scope=municipality&municipality=X'')
   \<and> details_alike example_host
        (resolveScope (blank_page\<lparr>currentFilter :=
                        \<lparr>sector = Some (lit ''khamis''), municipality = Some (lit ''X'')\<rparr>\<rparr>))
        (\<lambda>u. if u = lit ''/api/municipality/X/details'' then HttpOk BadJson else Rejected)
        (\<lambda>u. HttpOk BadJson)
   \<and> loadMunicipalityDetails example_host
        (\<lambda>u. if u = lit ''/api/municipality/X/details'' then HttpOk BadJson else Rejected)
        (blank_page\<lparr>currentFilter :=
                        \<lparr>sector = Some (lit ''khamis''), municipality = Some (lit ''X'')\<rparr>\<rparr>)
       = loadMunicipalityDetails example_host (\<lambda>u. HttpOk BadJson)
        (blank_page\<lparr>currentFilter :=
                        \<lparr>sector = Some (lit ''khamis''), municipality = Some (lit ''X'')\<rparr>\<rparr>)
   \<and> loadMunicipalityDetails example_host (\<lambda>u. Rejected)
        (blank_page\<lparr>body_data_sector := Some (lit ''abha''),
                    muni_summary_table := Some (lit ''old''),
                    currentFilter := \<lparr>sector = Some (lit ''khamis''), municipality = Some (lit ''X'')\<rparr>\<rparr>)
       = (blank_page\<lparr>body_data_sector := Some (lit ''abha''),
                     muni_summary_table := Some [],
                     currentFilter := \<lparr>sector = Some (lit ''khamis''), municipality = Some (lit ''X'')\<rparr>\<rparr>,
          Returned)
   \<and> loadMunicipalityDetails example_host
        (\<lambda>u. if u = lit ''/api/municipality/X/details''
             then HttpOk (JsonObject \<lparr>dj_summary = None, dj_raw = None\<rparr>) else Rejected)
        (blank_page\<lparr>currentFilter :=
                        \<lparr>sector = Some (lit ''khamis''), municipality = Some (lit ''X'')\<rparr>\<rparr>)
       = (details_render example_host \<lparr>dj_summary = None, dj_raw = None\<rparr>
            (blank_page\<lparr>currentFilter :=
                           \<lparr>sector = Some (lit ''khamis''), municipality = Some (lit ''X'')\<rparr>,
                        muni_summary_table := Some html_details_loading,
                        muni_raw_table := Some []\<rparr>), Returned)
   \<and> loadTotals example_host
        (\<lambda>u. if u = lit ''/api/totals/municipality/X''
             then HttpOk (JsonObject example_totals) else (Rejected :: (unit, totals_json) fetch_result))
        (blank_page\<lparr>currentFilter :=
                        \<lparr>sector = Some (lit ''khamis''), municipality = Some (lit ''X'')\<rparr>\<rparr>)
       = (loadTotals_render example_host example_totals
            (blank_page\<lparr>currentFilter :=
                           \<lparr>sector = Some (lit ''khamis''), municipality = Some (lit ''X'')\<rparr>,
                        status := Some msg_loading\<rparr>), Returned)
   \<and> loadChart example_host
        (\<lambda>u. if u = lit ''/api/chart-data/compare?scope=municipality&municipality=X''
             then HttpOk (JsonObject
                    \<lparr>cj_labels = Some [JStr (lit ''a'')], cj_current_visited = Some [JNum (Fin 1)],
                     cj_current_not = Some [JNum (Fin 2)], cj_prev_visited = None,
                     cj_prev_not = None, cj_has_prev = JBool False\<rparr>)
             else (Rejected :: (unit, chart_json) fetch_result))
        (blank_page\<lparr>currentFilter :=
                        \<lparr>sector = Some (lit ''khamis''), municipality = Some (lit ''X'')\<rparr>\<rparr>)
       = (blank_page\<lparr>currentFilter :=
                        \<lparr>sector = Some (lit ''khamis''), municipality = Some (lit ''X'')\<rparr>,
                     visitsChart := Some (chart_of
                    \<lparr>cj_labels = Some [JStr (lit ''a'')], cj_current_visited = Some [JNum (Fin 1)],
                     cj_current_not = Some [JNum (Fin 2)], cj_prev_visited = None,
                     cj_prev_not = None, cj_has_prev = JBool False\<rparr>),
                     canvas_shows := Some (chart_of
                    \<lparr>cj_labels = Some [JStr (lit ''a'')], cj_current_visited = Some [JNum (Fin 1)],
                     cj_current_not = Some [JNum (Fin 2)], cj_prev_visited = None,
                     cj_prev_not = None, cj_has_prev = JBool False\<rparr>)\<rparr>, Returned)
   \<and> loadMunicipalityDetails example_host (\<lambda>u. Rejected) blank_page
       = (blank_page\<lparr>muni_summary_table := Some html_choose_municipality,
                     muni_raw_table := Some []\<rparr>, Returned)"
proof -
  let ?F = "\<lparr>sector = Some (lit ''khamis''), municipality = Some (lit ''X'')\<rparr>"
  let ?st = "blank_page\<lparr>currentFilter := ?F\<rparr>"
  let ?bound = "blank_page\<lparr>body_data_sector := Some (lit ''abha''),
                           muni_summary_table := Some (lit ''old'')\<rparr>"
  let ?fd = "\<lambda>u. if u = lit ''/api/municipality/X/details''
                  then HttpOk (JsonObject \<lparr>dj_summary = None, dj_raw = None\<rparr>)
                  else (Rejected :: (jsval, details_json) fetch_result)"
  let ?ft = "\<lambda>u. if u = lit ''/api/totals/municipality/X''
                  then HttpOk (JsonObject example_totals)
                  else (Rejected :: (unit, totals_json) fetch_result)"
  let ?fa = "\<lambda>u. if u = lit ''/api/municipality/X/details'' then HttpOk BadJson
                  else (Rejected :: (jsval, details_json) fetch_result)"
  let ?fb = "\<lambda>u. HttpOk BadJson :: (jsval, details_json) fetch_result"
  have enc: "rt_encodeURIComponent example_host (lit ''X'') = Some (lit ''X'')"
    by (simp add: example_host_def unreserved_def)
  have b1: "getBodySector (blank_page\<lparr>body_data_sector := Some (lit ''abha'')\<rparr>)
            = Some (lit ''abha'')"
    and b2: "getBodySector ?bound = Some (lit ''abha'')"
    and b3: "getBodySector ?st = None"
    by (simp_all add: getBodySector_def blank_page_def)
  note t1 = scope_resolution [where rt = example_host and st = ?st and fetch = ?fa
      and fetch' = ?fb]
  note t2 = scope_resolution [where rt = example_host
      and st = "blank_page\<lparr>body_data_sector := Some (lit ''abha'')\<rparr>"
      and boundKey = "lit ''abha''" and f = ?F]
  note t3 = scope_resolution [where rt = example_host and st = ?bound
      and fetch = "\<lambda>u. Rejected :: (jsval, details_json) fetch_result"
      and boundKey = "lit ''abha''" and f = ?F]
  note t4 = scope_resolution [where rt = example_host and st = ?st and fetch = ?fd
      and m = "lit ''X''" and e = "lit ''X''"
      and details = "\<lparr>dj_summary = None, dj_raw = None\<rparr>"
      and u = "lit ''/api/totals/municipality/X''" and fetch_totals = ?ft
      and totals = example_totals]
  have s2: "resolveScope ?st = ByMunicipality (lit ''X'')"
    using t1 [THEN conjunct2, THEN conjunct2, THEN conjunct2, THEN conjunct2, THEN conjunct1] b3
    by (simp add: blank_page_def selected_def)
  have u2: "loadTotals_url example_host ?st = Some (lit ''/api/totals/municipality/X'')"
    using t1 [THEN conjunct1] s2 enc by (simp add: totals_url_of_scope_def)
  have q2: "loadChart_query example_host ?st = Some (lit ''?scope=municipality&municipality=X'')"
    using t1 [THEN conjunct2, THEN conjunct1] s2 enc by (simp add: chart_query_of_scope_def)
  have al: "details_alike example_host (resolveScope ?st) ?fa ?fb"
    using s2 enc by (simp add: details_alike_def)
  have d2: "loadMunicipalityDetails example_host ?fa ?st
            = loadMunicipalityDetails example_host ?fb ?st"
    using t1 [THEN conjunct2, THEN conjunct2, THEN conjunct1] al by blast
  have s1: "resolveScope (blank_page\<lparr>body_data_sector := Some (lit ''abha''),
                                      currentFilter := ?F\<rparr>) = BySector (lit ''abha'')"
    using t2 [THEN conjunct2, THEN conjunct2, THEN conjunct2, THEN conjunct1] b1 by simp
  have d3: "loadMunicipalityDetails example_host (\<lambda>u. Rejected) (?bound\<lparr>currentFilter := ?F\<rparr>)
            = (?bound\<lparr>currentFilter := ?F, muni_summary_table := Some [],
                       muni_raw_table := Some []\<rparr>, Returned)"
    using t3 [THEN conjunct2, THEN conjunct2, THEN conjunct2, THEN conjunct2, THEN conjunct2,
              THEN conjunct2, THEN conjunct2, THEN conjunct1] b2
    by (simp add: blank_page_def)
  have p: "muni_summary_table ?st \<noteq> None" "muni_raw_table ?st \<noteq> None"
    by (simp_all add: blank_page_def)
  have fd: "?fd (lit ''/api/municipality/'' @ lit ''X'' @ lit ''/details'')
            = HttpOk (JsonObject \<lparr>dj_summary = None, dj_raw = None\<rparr>)"
    by simp
  have d4: "loadMunicipalityDetails example_host ?fd ?st
            = (details_render example_host \<lparr>dj_summary = None, dj_raw = None\<rparr>
                 (?st\<lparr>muni_summary_table := Some html_details_loading,
                       muni_raw_table := Some []\<rparr>), Returned)"
    using t4 [THEN conjunct2, THEN conjunct2, THEN conjunct2, THEN conjunct2, THEN conjunct2,
              THEN conjunct2, THEN conjunct2, THEN conjunct2, THEN conjunct2] s2 enc p fd
    by blast
  have ft: "?ft (lit ''/api/totals/municipality/X'') = HttpOk (JsonObject example_totals)"
    by simp
  have l4: "loadTotals example_host ?ft ?st
            = (loadTotals_render example_host example_totals
                 (?st\<lparr>status := set_text msg_loading (status ?st)\<rparr>), Returned)"
    using t4 [THEN conjunct2, THEN conjunct2, THEN conjunct2, THEN conjunct2, THEN conjunct2,
              THEN conjunct1] u2 ft
    by blast
  let ?cd = "\<lparr>cj_labels = Some [JStr (lit ''a'')], cj_current_visited = Some [JNum (Fin 1)],
              cj_current_not = Some [JNum (Fin 2)], cj_prev_visited = None,
              cj_prev_not = None, cj_has_prev = JBool False\<rparr>"
  let ?fc = "\<lambda>u. if u = lit ''/api/chart-data/compare?scope=municipality&municipality=X''
                  then HttpOk (JsonObject ?cd)
                  else (Rejected :: (unit, chart_json) fetch_result)"
  note t5 = scope_resolution [where rt = example_host and st = ?st
      and q = "lit ''?scope=municipality&municipality=X''" and fetch_chart = ?fc
      and chart_data = ?cd]
  have fc: "?fc (lit ''/api/chart-data/compare'' @ lit ''?scope=municipality&municipality=X'')
            = HttpOk (JsonObject ?cd)"
    by simp
  have cp: "canvas_present ?st"
    by (simp add: blank_page_def)
  have c5: "loadChart example_host ?fc ?st
            = ((destroy_chart ?st)\<lparr>visitsChart := Some (chart_of ?cd),
                                    canvas_shows := Some (chart_of ?cd)\<rparr>, Returned)"
    using t5 [THEN conjunct2, THEN conjunct2, THEN conjunct2, THEN conjunct2, THEN conjunct2,
              THEN conjunct2, THEN conjunct1] cp q2 fc
    by blast
  have dc: "destroy_chart ?st = ?st"
    by (simp add: destroy_chart_def blank_page_def)
  note t6 = scope_resolution [where rt = example_host and st = blank_page
      and fetch = "\<lambda>u. Rejected :: (jsval, details_json) fetch_result"]
  have b6: "getBodySector blank_page = None"
    by (simp add: getBodySector_def blank_page_def)
  have s6: "resolveScope blank_page = AllData"
    using t6 [THEN conjunct2, THEN conjunct2, THEN conjunct2, THEN conjunct2, THEN conjunct1] b6
    by (simp add: blank_page_def selected_def)
  have p6: "muni_summary_table blank_page \<noteq> None" "muni_raw_table blank_page \<noteq> None"
    by (simp_all add: blank_page_def)
  have d6: "loadMunicipalityDetails example_host (\<lambda>u. Rejected) blank_page
            = (blank_page\<lparr>muni_summary_table := Some html_choose_municipality,
                          muni_raw_table := Some []\<rparr>, Returned)"
    using t6 [THEN conjunct2, THEN conjunct2, THEN conjunct2, THEN conjunct2, THEN conjunct2,
              THEN conjunct2, THEN conjunct2, THEN conjunct2, THEN conjunct1] b6 s6 p6
    by simp
  have st_status: "?st\<lparr>status := set_text msg_loading (status ?st)\<rparr>
                   = ?st\<lparr>status := Some msg_loading\<rparr>"
    by (simp add: blank_page_def set_text_def)
  have d3': "?bound\<lparr>currentFilter := ?F, muni_summary_table := Some [],
                       muni_raw_table := Some []\<rparr>
             = blank_page\<lparr>body_data_sector := Some (lit ''abha''),
                     muni_summary_table := Some [], currentFilter := ?F\<rparr>"
    by (simp add: blank_page_def)
  show ?thesis
    using b1 s1 b3 s2 u2 q2 al d2 d3 d3' d4 l4 st_status c5 dc d6 by simp
qed

section \<open>The loaders\<close>

lemma set_text_idem [simp]: "set_text t (set_text t' x) = set_text t x"
  by (simp add: set_text_def split: option.splits)

lemma set_text_Some [simp]: "set_text t (Some old) = Some t"
  by (simp add: set_text_def)

lemma set_text_None [simp]: "set_text t None = None"
  by (simp add: set_text_def)

lemma loadTotals_render_frame:
  "currentFilter (loadTotals_render rt d st) = currentFilter st"
  "body_data_sector (loadTotals_render rt d st) = body_data_sector st"
  "visitsChart (loadTotals_render rt d st) = visitsChart st"
  "canvas_shows (loadTotals_render rt d st) = canvas_shows st"
  by (simp_all add: loadTotals_render_def Let_def)

lemma loadTotals_render_cards:
  "card_visited_value (loadTotals_render rt d st)
     = set_text (num_to_string rt (ToNumber rt (js_or (visited d) (JNum (Fin 0)))))
         (card_visited_value st)"
  "card_not_visited_value (loadTotals_render rt d st)
     = set_text (num_to_string rt (ToNumber rt (js_or (not_visited d) (JNum (Fin 0)))))
         (card_not_visited_value st)"
  "card_total_value (loadTotals_render rt d st)
     = set_text (num_to_string rt (ToNumber rt (js_or (total d) (JNum (Fin 0)))))
         (card_total_value st)"
  by (simp_all add: loadTotals_render_def Let_def)

lemma loadTotals_frame:
  "currentFilter (fst (loadTotals rt fetch st)) = currentFilter st"
  "body_data_sector (fst (loadTotals rt fetch st)) = body_data_sector st"
  by (simp_all add: loadTotals_def Let_def loadTotals_render_frame
      split: option.splits fetch_result.splits json_body.splits)

lemma loadTotals_url_after:
  "loadTotals_url rt (fst (loadTotals rt fetch st)) = loadTotals_url rt st"
  by (rule loadTotals_url_cong) (simp_all add: loadTotals_frame)

lemma loadTotals_failed:
  assumes "loadTotals_url rt st = Some u"
    and "fetch u = Rejected \<or> fetch u = HttpError b"
  shows "loadTotals rt fetch st
         = (st\<lparr>status := set_text (if fetch u = Rejected then msg_connection_error else msg_no_data)
                              (status st)\<rparr>, Returned)"
  using assms by (auto simp: loadTotals_def Let_def)

lemma loadChart_frame:
  "currentFilter (fst (loadChart rt fetch st)) = currentFilter st"
  by (simp add: loadChart_def destroy_chart_def
      split: option.splits fetch_result.splits json_body.splits)

lemma loadMunicipalityDetails_frame:
  "currentFilter (fst (loadMunicipalityDetails rt fetch st)) = currentFilter st"
  by (simp add: loadMunicipalityDetails_def details_render_def Let_def
      split: option.splits fetch_result.splits json_body.splits)

lemma loadTotals_card_visited:
  "card_visited_value (fst (loadTotals rt fetch st)) =
     (case loadTotals_url rt st of
        None \<Rightarrow> card_visited_value st
      | Some u \<Rightarrow>
          (case fetch u of
             HttpOk (JsonObject d) \<Rightarrow>
               set_text (num_to_string rt (ToNumber rt (js_or (visited d) (JNum (Fin 0)))))
                 (card_visited_value st)
           | _ \<Rightarrow> card_visited_value st))"
  by (simp add: loadTotals_def Let_def loadTotals_render_cards
      split: option.splits fetch_result.splits json_body.splits)

lemma loadTotals_card_not_visited:
  "card_not_visited_value (fst (loadTotals rt fetch st)) =
     (case loadTotals_url rt st of
        None \<Rightarrow> card_not_visited_value st
      | Some u \<Rightarrow>
          (case fetch u of
             HttpOk (JsonObject d) \<Rightarrow>
               set_text (num_to_string rt (ToNumber rt (js_or (not_visited d) (JNum (Fin 0)))))
                 (card_not_visited_value st)
           | _ \<Rightarrow> card_not_visited_value st))"
  by (simp add: loadTotals_def Let_def loadTotals_render_cards
      split: option.splits fetch_result.splits json_body.splits)

lemma loadTotals_card_total:
  "card_total_value (fst (loadTotals rt fetch st)) =
     (case loadTotals_url rt st of
        None \<Rightarrow> card_total_value st
      | Some u \<Rightarrow>
          (case fetch u of
             HttpOk (JsonObject d) \<Rightarrow>
               set_text (num_to_string rt (ToNumber rt (js_or (total d) (JNum (Fin 0)))))
                 (card_total_value st)
           | _ \<Rightarrow> card_total_value st))"
  by (simp add: loadTotals_def Let_def loadTotals_render_cards
      split: option.splits fetch_result.splits json_body.splits)

lemma loadTotals_cards_twice:
  "card_visited_value (fst (loadTotals rt fetch (fst (loadTotals rt fetch st))))
     = card_visited_value (fst (loadTotals rt fetch st))"
  "card_not_visited_value (fst (loadTotals rt fetch (fst (loadTotals rt fetch st))))
     = card_not_visited_value (fst (loadTotals rt fetch st))"
  "card_total_value (fst (loadTotals rt fetch (fst (loadTotals rt fetch st))))
     = card_total_value (fst (loadTotals rt fetch st))"
  by (simp_all add: loadTotals_card_visited [of rt fetch "fst (loadTotals rt fetch st)"]
      loadTotals_card_not_visited [of rt fetch "fst (loadTotals rt fetch st)"]
      loadTotals_card_total [of rt fetch "fst (loadTotals rt fetch st)"]
      loadTotals_url_after
      loadTotals_card_visited [of rt fetch st] loadTotals_card_not_visited [of rt fetch st]
      loadTotals_card_total [of rt fetch st]
      split: option.splits fetch_result.splits json_body.splits)

lemma loadChart_failed:
  assumes "loadChart_query rt st = Some q"
    and "fetch (lit ''/api/chart-data/compare'' @ q) = Rejected
         \<or> fetch (lit ''/api/chart-data/compare'' @ q) = HttpError b"
  shows "loadChart rt fetch st = (st, Returned)"
  using assms by (auto simp: loadChart_def simp del: lit_simps)

lemma num_to_string_two_digits:
  "num_to_string rt (Fin 10) = lit ''10''" "num_to_string rt (Fin 15) = lit ''15''"
  using num_to_string_int [of 10 rt] num_to_string_int [of 15 rt]
  by (simp_all add: int_string_def digits.simps [of 10] digits.simps [of 15] digits_small)

lemma blank_page_url: "loadTotals_url rt blank_page = Some (lit ''/api/totals'')"
  by (simp add: loadTotals_url_def blank_page_def getBodySector_def getSectorKey_def
      getMunicipalityFilter_def str_truthy_def)

lemma num_to_string_5: "num_to_string rt (Fin 5) = lit ''5''"
  using num_to_string_digit [of 5 rt] by simp

text \<open>
  C7. Whenever the request of \<^verbatim>\<open>loadTotals\<close> is issued and the fetch rejects or the
  response is not a success, the loader returns normally (nothing is thrown past it) and
  changes nothing on the page but the status line: on a page that has the status element
  it reads the connection-error text after a rejection and "no data available" after an
  HTTP error, and the card values and delta slots rendered before stay as they were.
\<close>

theorem loadTotals_failure:
  assumes "loadTotals_url rt st = Some u"
    and "fetch u = Rejected \<or> fetch u = HttpError b"
  shows "snd (loadTotals rt fetch st) = Returned
       \<and> fst (loadTotals rt fetch st)
           = st\<lparr>status := set_text (if fetch u = Rejected then msg_connection_error else msg_no_data)
                                (status st)\<rparr>
       \<and> (status st \<noteq> None \<longrightarrow>
            status (fst (loadTotals rt fetch st))
              = Some (if fetch u = Rejected then msg_connection_error else msg_no_data))
       \<and> card_visited_value (fst (loadTotals rt fetch st)) = card_visited_value st
       \<and> card_not_visited_value (fst (loadTotals rt fetch st)) = card_not_visited_value st
       \<and> card_total_value (fst (loadTotals rt fetch st)) = card_total_value st
       \<and> card_visited_delta (fst (loadTotals rt fetch st)) = card_visited_delta st
       \<and> card_not_visited_delta (fst (loadTotals rt fetch st)) = card_not_visited_delta st
       \<and> card_total_delta (fst (loadTotals rt fetch st)) = card_total_delta st"
  using assms loadTotals_failed [of rt st u fetch b] by auto

theorem loadTotals_failure_witness:
  "loadTotals_url example_host (blank_page\<lparr>card_visited_value := Some (lit ''7'')\<rparr>)
     = Some (lit ''/api/totals'')
   \<and> loadTotals example_host (\<lambda>u. HttpError BadJson :: (unit, totals_json) fetch_result)
        (blank_page\<lparr>card_visited_value := Some (lit ''7'')\<rparr>)
       = (blank_page\<lparr>card_visited_value := Some (lit ''7''), status := Some msg_no_data\<rparr>, Returned)
   \<and> loadTotals example_host (\<lambda>u. Rejected :: (unit, totals_json) fetch_result)
        (blank_page\<lparr>card_visited_value := Some (lit ''7'')\<rparr>)
       = (blank_page\<lparr>card_visited_value := Some (lit ''7''), status := Some msg_connection_error\<rparr>,
          Returned)"
  using loadTotals_failure [of example_host "blank_page\<lparr>card_visited_value := Some (lit ''7'')\<rparr>"
      "lit ''/api/totals''" "\<lambda>u. HttpError BadJson :: (unit, totals_json) fetch_result" BadJson]
    loadTotals_failure [of example_host "blank_page\<lparr>card_visited_value := Some (lit ''7'')\<rparr>"
      "lit ''/api/totals''" "\<lambda>u. Rejected :: (unit, totals_json) fetch_result" BadJson]
    loadTotals_url_cong [of "blank_page\<lparr>card_visited_value := Some (lit ''7'')\<rparr>" blank_page
      example_host]
  by (simp add: blank_page_url prod_eq_iff) (simp add: blank_page_def)

text \<open>
  C3 (as amended). When the chart-data fetch rejects or returns a non-success response,
  \<^verbatim>\<open>loadChart\<close> returns without touching the chart: the global instance and the canvas are
  as before, so a canvas with no chart stays unrendered and no chart is drawn from the
  failed load.
\<close>

theorem loadChart_failure_keeps_chart:
  assumes "loadChart_query rt st = Some q"
    and "fetch (lit ''/api/chart-data/compare'' @ q) = Rejected
         \<or> fetch (lit ''/api/chart-data/compare'' @ q) = HttpError b"
  shows "loadChart rt fetch st = (st, Returned)
       \<and> visitsChart (fst (loadChart rt fetch st)) = visitsChart st
       \<and> canvas_shows (fst (loadChart rt fetch st)) = canvas_shows st"
  using assms loadChart_failed [of rt st q fetch b] by simp

theorem loadChart_failure_keeps_chart_witness:
  "loadChart_query example_host blank_page = Some (lit ''?scope=all'')
   \<and> canvas_shows blank_page = None
   \<and> canvas_shows (fst (loadChart example_host
        (\<lambda>u. HttpError BadJson :: (unit, chart_json) fetch_result) blank_page)) = None
   \<and> loadChart example_host (\<lambda>u. HttpError BadJson :: (unit, chart_json) fetch_result) blank_page
       = (blank_page, Returned)"
  using loadChart_failure_keeps_chart [of example_host blank_page "lit ''?scope=all''"
      "\<lambda>u. HttpError BadJson :: (unit, chart_json) fetch_result" BadJson]
  by (simp add: loadChart_query_scope chart_query_of_scope_def resolveScope_def selected_def
      blank_page_def)

text \<open>
  C3 as stated says that no chart rendered earlier stays visible after a failed load. The
  early return on a response that is not \<^verbatim>\<open>ok\<close> comes before the instance is destroyed:
  a chart drawn earlier (label "abha") is still on the canvas after the sector "khamis"
  has been selected and the chart request for it has failed.
\<close>

theorem loadChart_stale_chart_counterexample:
  "loadChart_query example_host
     (blank_page\<lparr>currentFilter := \<lparr>sector = Some (lit ''khamis''), municipality = None\<rparr>,
                 visitsChart := Some \<lparr>chart_labels = Some [JStr (lit ''abha'')], chart_datasets = []\<rparr>,
                 canvas_shows := Some \<lparr>chart_labels = Some [JStr (lit ''abha'')], chart_datasets = []\<rparr>\<rparr>)
     = Some (lit ''?scope=sector&sector=khamis'')
   \<and> canvas_shows (fst (loadChart example_host
        (\<lambda>u. HttpError BadJson :: (unit, chart_json) fetch_result)
        (blank_page\<lparr>currentFilter := \<lparr>sector = Some (lit ''khamis''), municipality = None\<rparr>,
                 visitsChart := Some \<lparr>chart_labels = Some [JStr (lit ''abha'')], chart_datasets = []\<rparr>,
                 canvas_shows := Some \<lparr>chart_labels = Some [JStr (lit ''abha'')], chart_datasets = []\<rparr>\<rparr>)))
     = Some \<lparr>chart_labels = Some [JStr (lit ''abha'')], chart_datasets = []\<rparr>"
  by (simp add: loadChart_def loadChart_query_scope chart_query_of_scope_def resolveScope_def
      selected_def example_host_def unreserved_def blank_page_def)

text \<open>
  C9. None of \<^verbatim>\<open>loadTotals\<close>, \<^verbatim>\<open>loadChart\<close> and \<^verbatim>\<open>loadMunicipalityDetails\<close> changes
  \<^verbatim>\<open>currentFilter\<close>, whatever the server answers; and running \<^verbatim>\<open>loadTotals\<close> a second
  time against the same server leaves the three card values as the first run rendered them.
\<close>

theorem loaders_keep_filter:
  "currentFilter (fst (loadTotals rt fetch_totals st)) = currentFilter st
   \<and> currentFilter (fst (loadChart rt fetch_chart st)) = currentFilter st
   \<and> currentFilter (fst (loadMunicipalityDetails rt fetch_details st)) = currentFilter st
   \<and> card_visited_value (fst (loadTotals rt fetch_totals (fst (loadTotals rt fetch_totals st))))
       = card_visited_value (fst (loadTotals rt fetch_totals st))
   \<and> card_not_visited_value (fst (loadTotals rt fetch_totals (fst (loadTotals rt fetch_totals st))))
       = card_not_visited_value (fst (loadTotals rt fetch_totals st))
   \<and> card_total_value (fst (loadTotals rt fetch_totals (fst (loadTotals rt fetch_totals st))))
       = card_total_value (fst (loadTotals rt fetch_totals st))"
  by (simp add: loadTotals_frame loadChart_frame loadMunicipalityDetails_frame
      loadTotals_cards_twice)

theorem loaders_keep_filter_witness:
  "card_visited_value (fst (loadTotals example_host
      (\<lambda>u. HttpOk (JsonObject example_totals) :: (unit, totals_json) fetch_result) blank_page))
     = Some (lit ''10'')
   \<and> card_not_visited_value (fst (loadTotals example_host
      (\<lambda>u. HttpOk (JsonObject example_totals) :: (unit, totals_json) fetch_result) blank_page))
     = Some (lit ''5'')
   \<and> card_total_value (fst (loadTotals example_host
      (\<lambda>u. HttpOk (JsonObject example_totals) :: (unit, totals_json) fetch_result) blank_page))
     = Some (lit ''15'')
   \<and> card_visited_value (fst (loadTotals example_host
      (\<lambda>u. HttpOk (JsonObject example_totals) :: (unit, totals_json) fetch_result)
      (fst (loadTotals example_host
        (\<lambda>u. HttpOk (JsonObject example_totals) :: (unit, totals_json) fetch_result) blank_page))))
     = Some (lit ''10'')
   \<and> currentFilter (fst (loadTotals example_host
      (\<lambda>u. HttpOk (JsonObject example_totals) :: (unit, totals_json) fetch_result) blank_page))
     = \<lparr>sector = None, municipality = None\<rparr>"
  using loaders_keep_filter [of example_host
      "\<lambda>u. HttpOk (JsonObject example_totals) :: (unit, totals_json) fetch_result" blank_page
      "\<lambda>u. Rejected :: (unit, chart_json) fetch_result"
      "\<lambda>u. Rejected :: (jsval, details_json) fetch_result"]
  by (simp add: loadTotals_card_visited loadTotals_card_not_visited loadTotals_card_total
      blank_page_url example_totals_def js_or_def truthy_def num_to_string_two_digits
      num_to_string_5)
     (simp add: blank_page_def)

section \<open>The search box\<close>

lemma str_includes_Nil [simp]: "str_includes xs []"
  by (cases xs) simp_all

lemma search_onInput_trimmed:
  assumes "rt_toLowerCase rt [] = []"
  shows "search_onInput rt input_value rows = search_spec rt (trim input_value) rows"
proof (cases "rt_toLowerCase rt (trim input_value) = []")
  case True
  then show ?thesis
    by (simp add: search_onInput_def search_spec_def contains_ci_def Let_def del: lit_simps)
next
  case False
  then have "trim input_value \<noteq> []" using assms by auto
  then show ?thesis using False
    by (simp add: search_onInput_def search_spec_def contains_ci_def Let_def del: lit_simps)
qed

lemma search_onInput_text:
  "map tr_textContent (search_onInput rt input_value rows) = map tr_textContent rows"
  by (simp add: search_onInput_def Let_def comp_def)

lemma trim_Nil [simp]: "trim [] = []"
  by (simp add: trim_def)

lemma search_onInput_clear:
  assumes "rt_toLowerCase rt [] = []"
  shows "search_onInput rt [] rows = map (\<lambda>r. r\<lparr>tr_display := []\<rparr>) rows"
  using assms by (simp add: search_onInput_def)

lemma ascii_lower_Nil: "rt_toLowerCase example_host [] = []"
  by (simp add: example_host_def ascii_lower_def)

text \<open>
  C5 (as amended). On a host whose lower-casing keeps the empty string empty, the search
  listener hides exactly those rendered rows whose text does not contain, without regard
  to case, the query with the white space at its two ends removed, and a query that is
  empty once trimmed shows all rows. It works on the rows rendered, whose number and texts
  it leaves alone, and clearing the query afterwards shows every row again.
\<close>

theorem search_hides_rows_without_trimmed_query:
  assumes "rt_toLowerCase rt [] = []"
  shows "search_onInput rt input_value rows = search_spec rt (trim input_value) rows
       \<and> map tr_textContent (search_onInput rt input_value rows) = map tr_textContent rows
       \<and> length (search_onInput rt input_value rows) = length rows
       \<and> search_onInput rt [] (search_onInput rt input_value rows)
           = map (\<lambda>r. r\<lparr>tr_display := []\<rparr>) rows"
proof -
  have "search_onInput rt [] (search_onInput rt input_value rows)
        = map (\<lambda>r. r\<lparr>tr_display := []\<rparr>) (search_onInput rt input_value rows)"
    using assms by (rule search_onInput_clear)
  also have "\<dots> = map (\<lambda>r. r\<lparr>tr_display := []\<rparr>) rows"
    by (simp add: search_onInput_def Let_def comp_def)
  finally show ?thesis
    using search_onInput_trimmed [OF assms] search_onInput_text [of rt input_value rows]
    by (simp add: search_spec_def)
qed

theorem search_hides_rows_without_trimmed_query_witness:
  "rt_toLowerCase example_host [] = []
   \<and> search_onInput example_host (lit '' BET '')
        [\<lparr>tr_textContent = lit ''alpha1'', tr_display = []\<rparr>,
         \<lparr>tr_textContent = lit ''Beta2'', tr_display = []\<rparr>,
         \<lparr>tr_textContent = lit ''gamma3'', tr_display = []\<rparr>]
       = [\<lparr>tr_textContent = lit ''alpha1'', tr_display = lit ''none''\<rparr>,
          \<lparr>tr_textContent = lit ''Beta2'', tr_display = []\<rparr>,
          \<lparr>tr_textContent = lit ''gamma3'', tr_display = lit ''none''\<rparr>]
   \<and> search_onInput example_host []
        (search_onInput example_host (lit '' BET '')
          [\<lparr>tr_textContent = lit ''alpha1'', tr_display = []\<rparr>,
           \<lparr>tr_textContent = lit ''Beta2'', tr_display = []\<rparr>,
           \<lparr>tr_textContent = lit ''gamma3'', tr_display = []\<rparr>])
       = [\<lparr>tr_textContent = lit ''alpha1'', tr_display = []\<rparr>,
          \<lparr>tr_textContent = lit ''Beta2'', tr_display = []\<rparr>,
          \<lparr>tr_textContent = lit ''gamma3'', tr_display = []\<rparr>]"
proof -
  let ?rows = "[\<lparr>tr_textContent = lit ''alpha1'', tr_display = []\<rparr>,
                \<lparr>tr_textContent = lit ''Beta2'', tr_display = []\<rparr>,
                \<lparr>tr_textContent = lit ''gamma3'', tr_display = []\<rparr>]"
  have h: "rt_toLowerCase example_host [] = []" by (rule ascii_lower_Nil)
  note t = search_hides_rows_without_trimmed_query [OF h, of "lit '' BET ''" ?rows]
  have "trim (lit '' BET '') = lit ''BET''"
    by (simp add: trim_def is_white_space_def)
  then have "search_spec example_host (trim (lit '' BET '')) ?rows
        = [\<lparr>tr_textContent = lit ''alpha1'', tr_display = lit ''none''\<rparr>,
           \<lparr>tr_textContent = lit ''Beta2'', tr_display = []\<rparr>,
           \<lparr>tr_textContent = lit ''gamma3'', tr_display = lit ''none''\<rparr>]"
    by (simp add: search_spec_def contains_ci_def example_host_def ascii_lower_def)
  then show ?thesis using h t by (simp add: search_onInput_clear [OF h])
qed

text \<open>
  C5 as stated takes the query as typed. The listener trims it first: with the query
  "beta" followed by a space, a row whose text is "Beta" does not contain the query, and
  is shown all the same.
\<close>

theorem search_untrimmed_query_counterexample:
  "search_spec example_host (lit ''beta '') [\<lparr>tr_textContent = lit ''Beta'', tr_display = []\<rparr>]
     = [\<lparr>tr_textContent = lit ''Beta'', tr_display = lit ''none''\<rparr>]
   \<and> search_onInput example_host (lit ''beta '') [\<lparr>tr_textContent = lit ''Beta'', tr_display = []\<rparr>]
     = [\<lparr>tr_textContent = lit ''Beta'', tr_display = []\<rparr>]"
  by (simp add: search_onInput_def search_spec_def contains_ci_def trim_def is_white_space_def
      example_host_def ascii_lower_def)

section \<open>The sector filter\<close>

lemma sectorSelect_onChange_sector:
  assumes "val \<noteq> []"
  shows "sectorSelect_onChange sectorMeta val (st, muniSelect)
         = ((st\<lparr>currentFilter := \<lparr>sector = Some val, municipality = None\<rparr>\<rparr>,
             muniSelect\<lparr>sel_options := all_municipalities_option #
                           map (\<lambda>m. (m, m)) (sector_municipalities sectorMeta val),
                         sel_disabled := False\<rparr>),
            [LoadMunicipalityDetails, LoadTotals, LoadChart])"
  using assms
  by (simp add: sectorSelect_onChange_def sector_municipalities_def split: option.splits)

lemma sectorSelect_onChange_none:
  "sectorSelect_onChange sectorMeta [] (st, muniSelect)
     = ((st\<lparr>currentFilter := \<lparr>sector = None, municipality = None\<rparr>\<rparr>,
         muniSelect\<lparr>sel_options := [all_municipalities_option], sel_disabled := True\<rparr>),
        [LoadMunicipalityDetails, LoadTotals, LoadChart])"
  by (simp add: sectorSelect_onChange_def)

lemma resolveScope_after_sector:
  assumes "getBodySector st = None"
  shows "resolveScope (st\<lparr>currentFilter := \<lparr>sector = x, municipality = None\<rparr>\<rparr>)
         = (case selected x of None \<Rightarrow> AllData | Some key \<Rightarrow> BySector key)"
  using assms resolveScope_unbound [of "st\<lparr>currentFilter := \<lparr>sector = x, municipality = None\<rparr>\<rparr>"]
  by (simp add: selected_def)

text \<open>
  C6. After every change of the sector select the handler has reset the municipality of the
  filter to none and started the three loaders. When a sector was chosen, the filter holds
  it, the municipality select offers the "all" option followed by that sector's
  municipalities in their order, and the select is enabled; on an unbound page the scope is
  then that sector. When "no sector" was chosen, both filter fields are none, the
  municipality select holds the "all" option alone and is disabled, and the scope on an
  unbound page is all data. Nothing else on the page is changed.
\<close>

theorem sector_change_resets_municipality:
  "(val \<noteq> [] \<longrightarrow>
      currentFilter (fst (fst (sectorSelect_onChange sectorMeta val (st, muniSelect))))
        = \<lparr>sector = Some val, municipality = None\<rparr>
      \<and> sel_options (snd (fst (sectorSelect_onChange sectorMeta val (st, muniSelect))))
          = all_municipalities_option # map (\<lambda>m. (m, m)) (sector_municipalities sectorMeta val)
      \<and> sel_disabled (snd (fst (sectorSelect_onChange sectorMeta val (st, muniSelect)))) = False
      \<and> (getBodySector st = None \<longrightarrow>
            resolveScope (fst (fst (sectorSelect_onChange sectorMeta val (st, muniSelect))))
              = BySector val))
   \<and> (val = [] \<longrightarrow>
      currentFilter (fst (fst (sectorSelect_onChange sectorMeta val (st, muniSelect))))
        = \<lparr>sector = None, municipality = None\<rparr>
      \<and> sel_options (snd (fst (sectorSelect_onChange sectorMeta val (st, muniSelect))))
          = [all_municipalities_option]
      \<and> sel_disabled (snd (fst (sectorSelect_onChange sectorMeta val (st, muniSelect)))) = True
      \<and> (getBodySector st = None \<longrightarrow>
            resolveScope (fst (fst (sectorSelect_onChange sectorMeta val (st, muniSelect))))
              = AllData))
   \<and> fst (fst (sectorSelect_onChange sectorMeta val (st, muniSelect)))
       = st\<lparr>currentFilter := currentFilter
                (fst (fst (sectorSelect_onChange sectorMeta val (st, muniSelect))))\<rparr>
   \<and> snd (sectorSelect_onChange sectorMeta val (st, muniSelect))
       = [LoadMunicipalityDetails, LoadTotals, LoadChart]"
proof (cases "val = []")
  case True
  then show ?thesis
    by (simp add: sectorSelect_onChange_none resolveScope_after_sector selected_def)
next
  case False
  then show ?thesis
    by (simp add: sectorSelect_onChange_sector resolveScope_after_sector selected_def)
qed

theorem sector_change_resets_municipality_witness:
  "lit ''abha'' \<noteq> []
   \<and> getBodySector blank_page = None
   \<and> sectorSelect_onChange
        [(lit ''abha'', \<lparr>si_label = JStr (lit ''Abha''),
                         si_municipalities = Some [lit ''A1'', lit ''A2'']\<rparr>)]
        (lit ''abha'')
        (blank_page\<lparr>currentFilter := \<lparr>sector = Some (lit ''khamis''),
                                       municipality = Some (lit ''K1'')\<rparr>\<rparr>,
         \<lparr>sel_options = [all_municipalities_option, (lit ''K1'', lit ''K1'')], sel_disabled = False\<rparr>)
       = ((blank_page\<lparr>currentFilter := \<lparr>sector = Some (lit ''abha''), municipality = None\<rparr>\<rparr>,
           \<lparr>sel_options = [all_municipalities_option, (lit ''A1'', lit ''A1''), (lit ''A2'', lit ''A2'')],
            sel_disabled = False\<rparr>),
          [LoadMunicipalityDetails, LoadTotals, LoadChart])
   \<and> sectorSelect_onChange
        [(lit ''abha'', \<lparr>si_label = JStr (lit ''Abha''),
                         si_municipalities = Some [lit ''A1'', lit ''A2'']\<rparr>)]
        []
        (blank_page\<lparr>currentFilter := \<lparr>sector = Some (lit ''abha''), municipality = None\<rparr>\<rparr>,
         \<lparr>sel_options = [all_municipalities_option, (lit ''A1'', lit ''A1''), (lit ''A2'', lit ''A2'')],
          sel_disabled = False\<rparr>)
       = ((blank_page\<lparr>currentFilter := \<lparr>sector = None, municipality = None\<rparr>\<rparr>,
           \<lparr>sel_options = [all_municipalities_option], sel_disabled = True\<rparr>),
          [LoadMunicipalityDetails, LoadTotals, LoadChart])
   \<and> resolveScope (blank_page\<lparr>currentFilter := \<lparr>sector = Some (lit ''abha''), municipality = None\<rparr>\<rparr>)
       = BySector (lit ''abha'')"
  using sector_change_resets_municipality
      [of "lit ''abha''"
          "[(lit ''abha'', \<lparr>si_label = JStr (lit ''Abha''),
                             si_municipalities = Some [lit ''A1'', lit ''A2'']\<rparr>)]"
          "blank_page\<lparr>currentFilter := \<lparr>sector = Some (lit ''khamis''),
                                          municipality = Some (lit ''K1'')\<rparr>\<rparr>"
          "\<lparr>sel_options = [all_municipalities_option, (lit ''K1'', lit ''K1'')], sel_disabled = False\<rparr>"]
  by (simp add: sectorSelect_onChange_def getBodySector_def blank_page_def)

section \<open>The percentage column of the summary\<close>

lemma map_of_obj_with_same: "map_of (obj_with k v r) k = Some v"
proof (cases "has_key k r")
  case True
  then show ?thesis
    by (induction r) (auto simp: obj_with_def has_key_def Object_keys_def)
next
  case False
  then have "map_of r k = None"
    by (simp add: has_key_def Object_keys_def map_of_eq_None_iff)
  then show ?thesis using False by (simp add: obj_with_def map_add_def)
qed

lemma map_of_obj_with_other:
  assumes "k' \<noteq> k"
  shows "map_of (obj_with k v r) k' = map_of r k'"
proof (cases "has_key k r")
  case True
  have "map_of (map (\<lambda>(a, b). if a = k then (a, v) else (a, b)) r) k' = map_of r k'"
    using assms by (induction r) auto
  then show ?thesis using True by (simp add: obj_with_def)
next
  case False
  then show ?thesis using assms by (simp add: obj_with_def map_add_def split: option.splits)
qed

lemma Object_keys_obj_with:
  "Object_keys (obj_with k v r) = (if has_key k r then Object_keys r else Object_keys r @ [k])"
proof -
  have "map fst (map (\<lambda>(a, b). if a = k then (a, v) else (a, b)) r) = map fst r"
    by (induction r) auto
  then show ?thesis by (simp add: obj_with_def Object_keys_def)
qed

lemma floor_half: "\<lfloor>1 / 2 :: rat\<rfloor> = 0"
  by (rule floor_unique) simp_all

lemma toFixed1_zero: "toFixed1 rt (Fin 0) = lit ''0.0''"
  by (simp add: toFixed1_def floor_half digits_small)

lemma row_pct_guard:
  assumes "\<not> num_gt0 (ToNumber rt (js_nullish (get_prop rt r key_total_licences) (JNum (Fin 0))))"
  shows "row_pct rt r = Fin 0"
  using assms by (simp add: row_pct_def Let_def)

lemma total_absent:
  assumes "absent (get_prop rt r key_total_licences)"
  shows "\<not> num_gt0 (ToNumber rt (js_nullish (get_prop rt r key_total_licences) (JNum (Fin 0))))"
  using assms by (auto simp: absent_def js_nullish_def num_gt0_def)

lemma total_nonpositive:
  assumes "get_prop rt r key_total_licences = JNum (Fin q)" and "q \<le> 0"
  shows "\<not> num_gt0 (ToNumber rt (js_nullish (get_prop rt r key_total_licences) (JNum (Fin 0))))"
  using assms by (auto simp: js_nullish_def num_gt0_def)

lemma get_prop_with_percentage:
  "get_prop rt (with_percentage rt r) key_percentage = JStr (toFixed1 rt (row_pct rt r) @ lit ''%'')"
  by (simp add: get_prop_def with_percentage_def map_of_obj_with_same del: lit_simps)

lemma floor_251_half: "\<lfloor>251 / 2 :: rat\<rfloor> = 125"
  by (rule floor_unique) simp_all

lemma toFixed1_example: "toFixed1 rt (Fin (25 / 2)) = lit ''12.5''"
  by (simp add: toFixed1_def floor_251_half digits_small digits.simps [of 12])

text \<open>
  C10. \<^verbatim>\<open>loadMunicipalityDetails\<close> renders the summary table from the rows of the response,
  each extended with the percentage field: the text of \<open>toFixed(1)\<close> of the percentage
  followed by the percent sign. The percentage is visited divided by total licences, times
  one hundred, when the total is above zero; when the total is zero, missing, \<^verbatim>\<open>null\<close>,
  negative or not a number, no division takes place and the field reads \<open>0.0%\<close>. Every
  other field of the row keeps its value, and the keys keep their order, the percentage
  coming last when the row did not have it.
\<close>

theorem summary_rows_get_percentage:
  "get_prop rt (with_percentage rt r) key_percentage = JStr (toFixed1 rt (row_pct rt r) @ lit ''%'')
   \<and> (num_gt0 (ToNumber rt (js_nullish (get_prop rt r key_total_licences) (JNum (Fin 0)))) \<longrightarrow>
        row_pct rt r =
          rt_multiply rt
            (rt_divide rt (ToNumber rt (js_nullish (get_prop rt r key_visited) (JNum (Fin 0))))
                          (ToNumber rt (js_nullish (get_prop rt r key_total_licences) (JNum (Fin 0)))))
            (Fin 100))
   \<and> (\<not> num_gt0 (ToNumber rt (js_nullish (get_prop rt r key_total_licences) (JNum (Fin 0)))) \<longrightarrow>
        row_pct rt r = Fin 0
        \<and> get_prop rt (with_percentage rt r) key_percentage = JStr (lit ''0.0%''))
   \<and> (absent (get_prop rt r key_total_licences) \<longrightarrow>
        get_prop rt (with_percentage rt r) key_percentage = JStr (lit ''0.0%''))
   \<and> (\<forall>q. get_prop rt r key_total_licences = JNum (Fin q) \<and> q \<le> 0 \<longrightarrow>
        get_prop rt (with_percentage rt r) key_percentage = JStr (lit ''0.0%''))
   \<and> (\<forall>k. k \<noteq> key_percentage \<longrightarrow> map_of (with_percentage rt r) k = map_of r k)
   \<and> Object_keys (with_percentage rt r)
       = (if has_key key_percentage r then Object_keys r else Object_keys r @ [key_percentage])
   \<and> muni_summary_table (details_render rt \<lparr>dj_summary = Some rows, dj_raw = raw\<rparr> st)
       = Some (html_summary_head
               @ buildTableHtml rt (Some (map (with_percentage rt) rows)) (Some summaryOrder) None
               @ html_tail)"
proof -
  have z: "get_prop rt (with_percentage rt r) key_percentage = JStr (lit ''0.0%'')"
    if "\<not> num_gt0 (ToNumber rt (js_nullish (get_prop rt r key_total_licences) (JNum (Fin 0))))"
    using row_pct_guard [OF that] by (simp add: get_prop_with_percentage toFixed1_zero)
  have a: "get_prop rt (with_percentage rt r) key_percentage = JStr (lit ''0.0%'')"
    if "absent (get_prop rt r key_total_licences)"
    using z total_absent [OF that] by blast
  have n: "get_prop rt (with_percentage rt r) key_percentage = JStr (lit ''0.0%'')"
    if "get_prop rt r key_total_licences = JNum (Fin q)" and "q \<le> 0" for q
    using z total_nonpositive [OF that] by blast
  have p: "row_pct rt r =
          rt_multiply rt
            (rt_divide rt (ToNumber rt (js_nullish (get_prop rt r key_visited) (JNum (Fin 0))))
                          (ToNumber rt (js_nullish (get_prop rt r key_total_licences) (JNum (Fin 0)))))
            (Fin 100)"
    if "num_gt0 (ToNumber rt (js_nullish (get_prop rt r key_total_licences) (JNum (Fin 0))))"
    using that by (simp add: row_pct_def Let_def)
  have o: "map_of (with_percentage rt r) k = map_of r k" if "k \<noteq> key_percentage" for k
    using that by (simp add: with_percentage_def map_of_obj_with_other)
  have d: "muni_summary_table (details_render rt \<lparr>dj_summary = Some rows, dj_raw = raw\<rparr> st)
       = Some (html_summary_head
               @ buildTableHtml rt (Some (map (with_percentage rt) rows)) (Some summaryOrder) None
               @ html_tail)"
    by (simp add: details_render_def Let_def)
  have ks: "Object_keys (with_percentage rt r)
       = (if has_key key_percentage r then Object_keys r else Object_keys r @ [key_percentage])"
    by (simp add: with_percentage_def Object_keys_obj_with)
  show ?thesis
    using z a n p o d ks row_pct_guard [of rt r] get_prop_with_percentage [of rt r]
    by blast
qed

lemma example_host_summary_keys:
  "rt_ObjectPrototype example_host key_total_licences = None"
  "rt_ObjectPrototype example_host key_visited = None"
  by (simp_all add: example_host_def standard_ObjectPrototype_def native_function_def
      key_total_licences_def key_visited_def)

lemma summary_keys_distinct:
  "key_total_licences \<noteq> key_visited" "key_visited \<noteq> key_total_licences"
  "key_percentage \<noteq> key_total_licences" "key_percentage \<noteq> key_visited"
  "key_percentage \<noteq> key_category" "key_category \<noteq> key_total_licences"
  "key_category \<noteq> key_visited"
  by (simp_all add: key_total_licences_def key_visited_def key_percentage_def key_category_def)

lemma example_host_arith:
  "rt_multiply example_host (rt_divide example_host (Fin 1) (Fin 8)) (Fin 100) = Fin (25 / 2)"
  by (simp add: example_host_def exact_divide_def exact_multiply_def)

theorem summary_rows_get_percentage_witness:
  "num_gt0 (ToNumber example_host (js_nullish
      (get_prop example_host [(key_category, JStr (lit ''shops'')), (key_total_licences, JNum (Fin 8)),
                 (key_visited, JNum (Fin 1))] key_total_licences) (JNum (Fin 0))))
   \<and> with_percentage example_host
        [(key_category, JStr (lit ''shops'')), (key_total_licences, JNum (Fin 8)),
         (key_visited, JNum (Fin 1))]
       = [(key_category, JStr (lit ''shops'')), (key_total_licences, JNum (Fin 8)),
          (key_visited, JNum (Fin 1)), (key_percentage, JStr (lit ''12.5%''))]
   \<and> \<not> num_gt0 (ToNumber example_host (js_nullish
      (get_prop example_host [(key_total_licences, JNum (Fin 0)), (key_visited, JNum (Fin 3))]
         key_total_licences) (JNum (Fin 0))))
   \<and> get_prop example_host (with_percentage example_host
        [(key_total_licences, JNum (Fin 0)), (key_visited, JNum (Fin 3))]) key_percentage
       = JStr (lit ''0.0%'')
   \<and> absent (get_prop example_host [(key_visited, JNum (Fin 3))] key_total_licences)
   \<and> get_prop example_host (with_percentage example_host [(key_visited, JNum (Fin 3))]) key_percentage
       = JStr (lit ''0.0%'')"
proof -
  let ?r1 = "[(key_category, JStr (lit ''shops'')), (key_total_licences, JNum (Fin 8)),
              (key_visited, JNum (Fin 1))]"
  let ?r0 = "[(key_total_licences, JNum (Fin 0)), (key_visited, JNum (Fin 3))]"
  let ?rm = "[(key_visited, JNum (Fin 3))]"
  have g1: "get_prop example_host ?r1 key_total_licences = JNum (Fin 8)"
    and g1v: "get_prop example_host ?r1 key_visited = JNum (Fin 1)"
    and g0: "get_prop example_host ?r0 key_total_licences = JNum (Fin 0)"
    and gm: "get_prop example_host ?rm key_total_licences = JUndefined"
    using summary_keys_distinct by (simp_all add: get_prop_def example_host_summary_keys)
  have p1: "row_pct example_host ?r1 = Fin (25 / 2)"
    using g1 g1v by (simp add: row_pct_def js_nullish_def num_gt0_def example_host_arith)
  have w1: "with_percentage example_host ?r1 = ?r1 @ [(key_percentage, JStr (lit ''12.5%''))]"
    using summary_keys_distinct p1
    by (simp add: with_percentage_def toFixed1_example obj_with_def has_key_def Object_keys_def)
  have a0: "\<not> num_gt0 (ToNumber example_host (js_nullish
      (get_prop example_host ?r0 key_total_licences) (JNum (Fin 0))))"
    using g0 by (simp add: js_nullish_def num_gt0_def)
  have am: "absent (get_prop example_host ?rm key_total_licences)"
    using gm by (simp add: absent_def)
  note t0 = summary_rows_get_percentage [of example_host ?r0]
  note tm = summary_rows_get_percentage [of example_host ?rm]
  have z0: "get_prop example_host (with_percentage example_host ?r0) key_percentage
            = JStr (lit ''0.0%'')"
    using t0 a0 by blast
  have zm: "get_prop example_host (with_percentage example_host ?rm) key_percentage
            = JStr (lit ''0.0%'')"
    using tm am by blast
  have "num_gt0 (ToNumber example_host (js_nullish
      (get_prop example_host ?r1 key_total_licences) (JNum (Fin 0))))"
    using g1 by (simp add: js_nullish_def num_gt0_def)
  then show ?thesis using w1 a0 z0 am zm by simp
qed

end
